theory Spec2Isabelle
  imports Complex_Main "HOL-Library.AList"
begin

section \<open>Values, strings and errors\<close>

text \<open>
  The scoring rules of \<^verbatim>\<open>scoring_aggregator.py\<close> only compare the numeric fields of
  their inputs and never compute with them, so a numeric field is an exact rational or
  the \<^verbatim>\<open>float('inf')\<close> that several lookups use as their default. A score is a Python
  number: an integer where a rule adds and subtracts its own constants only, and whatever
  number the configuration holds where a rule adds a configured bonus or penalty or
  returns a table entry. Such a number is an exact rational here, so the rounding of a
  float addition is not part of the model; \<^verbatim>\<open>int(x)\<close> truncates it towards zero.
\<close>

datatype pynum = Fin rat | PInf

fun num_lt :: "pynum \<Rightarrow> pynum \<Rightarrow> bool" where
  "num_lt (Fin a) (Fin b) = (a < b)"
| "num_lt (Fin a) PInf = True"
| "num_lt PInf b = False"

definition num_le :: "pynum \<Rightarrow> pynum \<Rightarrow> bool" where
  "num_le a b = (\<not> num_lt b a)"

definition py_int :: "rat \<Rightarrow> int" where
  "py_int x = (if 0 \<le> x then \<lfloor>x\<rfloor> else \<lceil>x\<rceil>)"

text \<open>The exceptions that can leave the modelled functions.\<close>

datatype py_error =
    ScoringError string
  | FileNotFoundError string
  | OSError string
  | YAMLError string
  | KeyError string
  | IndexError
  | ValueError
  | TypeError

text \<open>
  \<^verbatim>\<open>str(e)\<close> of an exception, as the f-strings of \<^verbatim>\<open>_load_config\<close> print it. Its
  \<^verbatim>\<open>try\<close> block raises none of the last four, so their texts are never printed.
\<close>

fun str_exc :: "py_error \<Rightarrow> string" where
  "str_exc (ScoringError m) = m"
| "str_exc (FileNotFoundError m) = m"
| "str_exc (OSError m) = m"
| "str_exc (YAMLError m) = m"
| "str_exc (KeyError k) = [CHR 39] @ k @ [CHR 39]"
| "str_exc IndexError = ''list index out of range''"
| "str_exc ValueError = ''max() arg is an empty sequence''"
| "str_exc TypeError = ''unsupported operand''"

text \<open>\<^verbatim>\<open>d.get(key, default)\<close> on a field that may be absent.\<close>

definition get_default :: "'a option \<Rightarrow> 'a \<Rightarrow> 'a" where
  "get_default field dflt = (case field of None \<Rightarrow> dflt | Some v \<Rightarrow> v)"

text \<open>\<^verbatim>\<open>str.lower\<close>, on ASCII letters (other characters are left as they are).\<close>

definition lower_char :: "char \<Rightarrow> char" where
  "lower_char c =
     (let n = (of_char c :: nat) in if 65 \<le> n \<and> n \<le> 90 then char_of (n + 32) else c)"

definition lower :: "string \<Rightarrow> string" where
  "lower s = map lower_char s"

text \<open>\<^verbatim>\<open>sep.join(xs)\<close>.\<close>

fun join :: "string \<Rightarrow> string list \<Rightarrow> string" where
  "join sep [] = []"
| "join sep [x] = x"
| "join sep (x # y # ys) = x @ sep @ join sep (y # ys)"

text \<open>The decimal text of an integer, as an f-string prints it.\<close>

definition digit_char :: "nat \<Rightarrow> char" where
  "digit_char d = char_of (48 + d)"

fun str_nat :: "nat \<Rightarrow> string" where
  "str_nat n = (if n < 10 then [digit_char n] else str_nat (n div 10) @ [digit_char (n mod 10)])"

definition str_int :: "int \<Rightarrow> string" where
  "str_int i = (if i < 0 then ''-'' @ str_nat (nat (- i)) else str_nat (nat i))"

text \<open>The \<^verbatim>\<open>repr\<close> of a list of module names, as \<^verbatim>\<open>f"{missing}"\<close> prints it.\<close>

definition repr_str :: "string \<Rightarrow> string" where
  "repr_str s = [CHR 39] @ s @ [CHR 39]"

definition repr_list :: "string list \<Rightarrow> string" where
  "repr_list xs = ''['' @ join '', '' (map repr_str xs) @ '']''"

text \<open>Truthiness of an optional string (\<^verbatim>\<open>None\<close> and \<^verbatim>\<open>""\<close> are false).\<close>

fun truthy :: "string option \<Rightarrow> bool" where
  "truthy None = False"
| "truthy (Some s) = (s \<noteq> [])"

section \<open>Module records and their threshold configurations\<close>

text \<open>
  A module record of the input is a dict whose fields are all optional: every rule reads
  them with \<^verbatim>\<open>.get\<close> and a default. \<^verbatim>\<open>None\<close> is an absent key.
\<close>

record docking_data =
  affinity_kcal :: "pynum option"
  rmsd :: "pynum option"
  num_converged_poses :: "pynum option"

record adme_data =
  logP :: "pynum option"
  HIA :: "string option"
  half_life_hr :: "pynum option"
  clearance :: "string option"
  CYP_inhibition :: "bool option"

record tox_data =
  num_models_flagged :: "pynum option"
  high_risk_models :: "string list option"

record drugg_data =
  pocket_score :: "pynum option"
  volume :: "pynum option"
  hydrophobicity :: "pynum option"

record dl_data =
  num_violations :: "pynum option"

record ot_data =
  selectivity_index :: "pynum option"
  num_off_targets :: "pynum option"

text \<open>
  The entries of \<^verbatim>\<open>config["thresholds"]\<close>, with the keys each rule subscripts. The
  lists and the table keep their own length, so the \<^verbatim>\<open>IndexError\<close> and \<^verbatim>\<open>ValueError\<close>
  of a short list or an empty table are part of the model.
\<close>

record affinity_cfg =
  high :: pynum
  medium :: pynum
  low :: pynum

record docking_cfg =
  affinity :: affinity_cfg
  rmsd_max :: pynum
  min_poses :: pynum

record adme_cfg =
  logP_range :: "pynum list"
  half_life_min :: pynum
  clearance_acceptable :: "string list"
  cyp_inhibition_penalty :: rat

record tox_cfg =
  max_flags_allowed :: int
  override_models :: "string list"

record drugg_cfg =
  high_score :: pynum
  mid_score :: pynum
  bonus_volume_min :: pynum
  bonus_hydrophobicity_min :: pynum
  volume_hydrophobicity_bonus :: rat

record dl_cfg =
  score_by_violations :: "(int \<times> rat) list"

record ot_cfg =
  si_thresholds :: "pynum list"
  low_target_bonus_threshold :: pynum
  low_target_bonus :: rat

section \<open>The six scoring rules\<close>

definition score_docking :: "docking_data \<Rightarrow> docking_cfg \<Rightarrow> int" where
  "score_docking docking_data cfg =
     (let aff = get_default (affinity_kcal docking_data) (Fin 0);
          r = get_default (rmsd docking_data) PInf;
          poses = get_default (num_converged_poses docking_data) (Fin 0);
          score = (if num_lt aff (high (affinity cfg)) then 25
                   else if num_lt aff (medium (affinity cfg)) then 20
                   else if num_lt aff (low (affinity cfg)) then 10
                   else 0);
          score = (if num_lt (rmsd_max cfg) r \<or> num_lt poses (min_poses cfg)
                   then score - 5 else score)
      in max score 0)"

text \<open>
  The chained comparison \<^verbatim>\<open>range[0] <= logP <= range[1]\<close> subscripts \<^verbatim>\<open>range[1]\<close> only
  when its first half holds.
\<close>

definition logP_in_range :: "pynum list \<Rightarrow> pynum \<Rightarrow> py_error + bool" where
  "logP_in_range rng x =
     (case rng of
        [] \<Rightarrow> Inl IndexError
      | lo # rest \<Rightarrow>
          if num_le lo x
          then (case rest of [] \<Rightarrow> Inl IndexError | hi # _ \<Rightarrow> Inr (num_le x hi))
          else Inr False)"

definition score_adme_pk :: "adme_data \<Rightarrow> adme_cfg \<Rightarrow> py_error + rat" where
  "score_adme_pk adme_data cfg =
     (case logP_in_range (logP_range cfg) (get_default (logP adme_data) (Fin (- 1))) of
        Inl e \<Rightarrow> Inl e
      | Inr in_range \<Rightarrow>
          (let score = 0;
               score = (if in_range then score + 5 else score);
               score = (if lower (get_default (HIA adme_data) []) = ''high''
                        then score + 5 else score);
               score = (if num_lt (half_life_min cfg) (get_default (half_life_hr adme_data) (Fin 0))
                        then score + 5 else score);
               score = (if lower (get_default (clearance adme_data) [])
                             \<in> set (map lower (clearance_acceptable cfg))
                        then score + 5 else score);
               score = (if get_default (CYP_inhibition adme_data) False
                        then score + cyp_inhibition_penalty cfg else score)
           in Inr (max score 0)))"

definition score_toxicity :: "tox_data \<Rightarrow> tox_cfg \<Rightarrow> int \<times> string option" where
  "score_toxicity tox_data cfg =
     (let num_flagged = get_default (num_models_flagged tox_data) (Fin 0);
          (score, failure_reason) =
             (if num_flagged = Fin 0 then (20, None)
              else if num_flagged = Fin 1 then (10, None)
              else if num_lt (Fin (of_int (max_flags_allowed cfg))) num_flagged
                   then (0, Some (''>'' @ str_int (max_flags_allowed cfg) @ '' toxicity models flagged''))
              else (0, None));
          high_risk_penalties =
             filter (\<lambda>m. m \<in> set (override_models cfg)) (get_default (high_risk_models tox_data) [])
      in if high_risk_penalties \<noteq> []
         then (let score = score - 10 * int (length high_risk_penalties);
                   penalty_reason = ''High-risk models flagged: '' @ join '', '' high_risk_penalties;
                   failure_reason =
                     (case failure_reason of
                        None \<Rightarrow> Some penalty_reason
                      | Some r \<Rightarrow> if r \<noteq> [] then Some (r @ ''; '' @ penalty_reason)
                                  else Some penalty_reason)
               in (max score 0, failure_reason))
         else (max score 0, failure_reason))"

definition score_druggability :: "drugg_data \<Rightarrow> drugg_cfg \<Rightarrow> rat" where
  "score_druggability drugg_data cfg =
     (let score = 0;
          score = (if num_lt (high_score cfg) (get_default (pocket_score drugg_data) (Fin 0))
                   then score + 10
                   else if num_le (mid_score cfg) (get_default (pocket_score drugg_data) (Fin 0))
                   then score + 5
                   else score);
          score = (if num_le (bonus_volume_min cfg) (get_default (volume drugg_data) (Fin 0))
                      \<and> num_le (bonus_hydrophobicity_min cfg)
                            (get_default (hydrophobicity drugg_data) (Fin 0))
                   then score + volume_hydrophobicity_bonus cfg else score)
      in score)"

text \<open>
  \<^verbatim>\<open>max(score_table.keys())\<close> raises \<^verbatim>\<open>ValueError\<close> on an empty table; \<^verbatim>\<open>min(a, b)\<close>
  returns \<^verbatim>\<open>b\<close> only when \<^verbatim>\<open>b < a\<close>; \<^verbatim>\<open>score_table.get(v, 0)\<close> finds an integer key
  that equals \<^verbatim>\<open>v\<close>.
\<close>

fun max_key :: "int list \<Rightarrow> py_error + int" where
  "max_key [] = Inl ValueError"
| "max_key (k # ks) = Inr (fold max ks k)"

definition py_min :: "pynum \<Rightarrow> pynum \<Rightarrow> pynum" where
  "py_min a b = (if num_lt b a then b else a)"

fun table_get :: "(int \<times> rat) list \<Rightarrow> pynum \<Rightarrow> rat \<Rightarrow> rat" where
  "table_get [] v dflt = dflt"
| "table_get ((k, s) # rest) v dflt = (if v = Fin (of_int k) then s else table_get rest v dflt)"

definition score_drug_likeness :: "dl_data \<Rightarrow> dl_cfg \<Rightarrow> py_error + rat" where
  "score_drug_likeness dl_data cfg =
     (let violations = get_default (num_violations dl_data) PInf;
          score_table = score_by_violations cfg
      in case max_key (map fst score_table) of
           Inl e \<Rightarrow> Inl e
         | Inr K \<Rightarrow> Inr (table_get score_table (py_min violations (Fin (of_int K))) 0))"

text \<open>\<^verbatim>\<open>thresholds[2]\<close> is the first subscript, so a list of fewer than three raises there.\<close>

definition score_off_target :: "ot_data \<Rightarrow> ot_cfg \<Rightarrow> py_error + rat" where
  "score_off_target ot_data cfg =
     (let si = get_default (selectivity_index ot_data) (Fin 0);
          ts = si_thresholds cfg
      in if length ts < 3 then Inl IndexError
         else (let score = (if num_lt (ts ! 2) si then 15
                            else if num_lt (ts ! 1) si then 10
                            else if num_lt (ts ! 0) si then 5
                            else 0);
                   score = (if num_lt (get_default (num_off_targets ot_data) PInf)
                                      (low_target_bonus_threshold cfg)
                            then score + low_target_bonus cfg else score)
               in Inr score))"

section \<open>The input bundle and the configuration\<close>

text \<open>
  \<^verbatim>\<open>module_outputs\<close> is either not a dict at all or a dict that may hold each of the six
  module records; the keys it holds beside them are kept, as an empty dict and a dict
  without the six keys are refused with different messages.
\<close>

record output_bundle =
  docking :: "docking_data option"
  adme_pk :: "adme_data option"
  toxicity :: "tox_data option"
  druggability :: "drugg_data option"
  drug_likeness :: "dl_data option"
  off_target :: "ot_data option"
  other_keys :: "string list"

datatype request = NotADict | Dict output_bundle

text \<open>
  What \<^verbatim>\<open>yaml.safe_load\<close> can return where the program expects a mapping: \<^verbatim>\<open>None\<close>, a
  bool or a number (with its truth value), a string, a list (its string items, and
  \<^verbatim>\<open>None\<close> for an item of another type) or a dict.
\<close>

datatype 'm yaml_value =
    YNull
  | YScalar bool
  | YText string
  | YSeq "string option list"
  | YMap 'm

text \<open>
  The loaded configuration, when it is a dict: it may hold the sections \<^verbatim>\<open>weights\<close>
  (module name to weight) and \<^verbatim>\<open>thresholds\<close> (module name to the thresholds of that
  module), each with whatever value the document gives it, and other keys.
\<close>

record thresholds_cfg =
  th_docking :: "docking_cfg option"
  th_adme_pk :: "adme_cfg option"
  th_toxicity :: "tox_cfg option"
  th_druggability :: "drugg_cfg option"
  th_drug_likeness :: "dl_cfg option"
  th_off_target :: "ot_cfg option"

record raw_config =
  weights :: "(string \<times> rat) list yaml_value option"
  thresholds :: "thresholds_cfg yaml_value option"
  other_sections :: "string list"

record aggregator =
  config :: "raw_config yaml_value"

definition required_modules :: "string list" where
  "required_modules =
     [''docking'', ''adme_pk'', ''toxicity'', ''druggability'', ''drug_likeness'', ''off_target'']"

text \<open>\<^verbatim>\<open>m in module_outputs\<close>, \<^verbatim>\<open>section in self.config\<close> and \<^verbatim>\<open>module in thresholds\<close>.\<close>

definition bundle_has :: "output_bundle \<Rightarrow> string \<Rightarrow> bool" where
  "bundle_has b m =
     (if m = ''docking'' then docking b \<noteq> None
      else if m = ''adme_pk'' then adme_pk b \<noteq> None
      else if m = ''toxicity'' then toxicity b \<noteq> None
      else if m = ''druggability'' then druggability b \<noteq> None
      else if m = ''drug_likeness'' then drug_likeness b \<noteq> None
      else if m = ''off_target'' then off_target b \<noteq> None
      else m \<in> set (other_keys b))"

definition bundle_empty :: "output_bundle \<Rightarrow> bool" where
  "bundle_empty b =
     (docking b = None \<and> adme_pk b = None \<and> toxicity b = None \<and> druggability b = None
      \<and> drug_likeness b = None \<and> off_target b = None \<and> other_keys b = [])"

definition config_has :: "raw_config \<Rightarrow> string \<Rightarrow> bool" where
  "config_has c s =
     (if s = ''weights'' then weights c \<noteq> None
      else if s = ''thresholds'' then thresholds c \<noteq> None
      else s \<in> set (other_sections c))"

definition config_empty :: "raw_config \<Rightarrow> bool" where
  "config_empty c = (weights c = None \<and> thresholds c = None \<and> other_sections c = [])"

definition thresholds_has :: "thresholds_cfg \<Rightarrow> string \<Rightarrow> bool" where
  "thresholds_has th m =
     (if m = ''docking'' then th_docking th \<noteq> None
      else if m = ''adme_pk'' then th_adme_pk th \<noteq> None
      else if m = ''toxicity'' then th_toxicity th \<noteq> None
      else if m = ''druggability'' then th_druggability th \<noteq> None
      else if m = ''drug_likeness'' then th_drug_likeness th \<noteq> None
      else if m = ''off_target'' then th_off_target th \<noteq> None
      else False)"

section \<open>Loading and validating the configuration\<close>

text \<open>\<^verbatim>\<open>sub in text\<close> on strings: \<^verbatim>\<open>sub\<close> occurs in \<^verbatim>\<open>text\<close>.\<close>

fun starts_with :: "string \<Rightarrow> string \<Rightarrow> bool" where
  "starts_with text [] = True"
| "starts_with [] (c # sub) = False"
| "starts_with (d # text) (c # sub) = (d = c \<and> starts_with text sub)"

fun contains :: "string \<Rightarrow> string \<Rightarrow> bool" where
  "contains [] sub = (sub = [])"
| "contains (d # text) sub = (starts_with (d # text) sub \<or> contains text sub)"

text \<open>
  \<^verbatim>\<open>key in v\<close> for a string key: a \<^verbatim>\<open>TypeError\<close> on \<^verbatim>\<open>None\<close>, a bool or a number, the
  substring test on a string, membership in a list, and the key test on a dict, which the
  second argument gives.
\<close>

fun py_in :: "string \<Rightarrow> 'm yaml_value \<Rightarrow> ('m \<Rightarrow> string \<Rightarrow> bool) \<Rightarrow> py_error + bool" where
  "py_in key YNull has = Inl TypeError"
| "py_in key (YScalar b) has = Inl TypeError"
| "py_in key (YText text) has = Inr (contains text key)"
| "py_in key (YSeq items) has = Inr (Some key \<in> set items)"
| "py_in key (YMap m) has = Inr (has m key)"

text \<open>The truth value of a loaded document, as \<^verbatim>\<open>not config\<close> tests it.\<close>

fun doc_truthy :: "raw_config yaml_value \<Rightarrow> bool" where
  "doc_truthy YNull = False"
| "doc_truthy (YScalar b) = b"
| "doc_truthy (YText text) = (text \<noteq> [])"
| "doc_truthy (YSeq items) = (items \<noteq> [])"
| "doc_truthy (YMap c) = (\<not> config_empty c)"

text \<open>
  \<^verbatim>\<open>self.config["weights"]\<close> and \<^verbatim>\<open>self.config["thresholds"]\<close>: a \<^verbatim>\<open>KeyError\<close> on a dict
  without the key, a \<^verbatim>\<open>TypeError\<close> on anything that is not a dict.
\<close>

fun config_weights :: "raw_config yaml_value \<Rightarrow> py_error + (string \<times> rat) list yaml_value" where
  "config_weights (YMap c) =
     (case weights c of None \<Rightarrow> Inl (KeyError ''weights'') | Some w \<Rightarrow> Inr w)"
| "config_weights other = Inl TypeError"

fun config_thresholds :: "raw_config yaml_value \<Rightarrow> py_error + thresholds_cfg yaml_value" where
  "config_thresholds (YMap c) =
     (case thresholds c of None \<Rightarrow> Inl (KeyError ''thresholds'') | Some th \<Rightarrow> Inr th)"
| "config_thresholds other = Inl TypeError"

definition weights_has :: "(string \<times> rat) list \<Rightarrow> string \<Rightarrow> bool" where
  "weights_has w m = (map_of w m \<noteq> None)"

text \<open>
  What the file system and \<^verbatim>\<open>yaml.safe_load\<close> answer for a path: no such file, a file
  that \<^verbatim>\<open>open\<close> or \<^verbatim>\<open>read\<close> refuses (with the text of the \<^verbatim>\<open>OSError\<close>), a text that the
  parser refuses (with the text of the \<^verbatim>\<open>YAMLError\<close>), or the parsed document.
\<close>

datatype file_state =
    Absent
  | Unreadable string
  | Malformed string
  | Loads "raw_config yaml_value"

text \<open>The body of the \<^verbatim>\<open>try\<close> block of \<^verbatim>\<open>_load_config\<close>, then its two handlers.\<close>

definition load_config_try ::
  "(string \<Rightarrow> file_state) \<Rightarrow> string \<Rightarrow> py_error + raw_config yaml_value" where
  "load_config_try fs config_path =
     (case fs config_path of
        Absent \<Rightarrow> Inl (FileNotFoundError (''Configuration file not found: '' @ config_path))
      | Unreadable e \<Rightarrow> Inl (OSError e)
      | Malformed e \<Rightarrow> Inl (YAMLError e)
      | Loads doc \<Rightarrow>
          if \<not> doc_truthy doc then Inl (ScoringError ''Configuration file is empty or invalid'')
          else Inr doc)"

definition load_config ::
  "(string \<Rightarrow> file_state) \<Rightarrow> string \<Rightarrow> py_error + raw_config yaml_value" where
  "load_config fs config_path =
     (case load_config_try fs config_path of
        Inr doc \<Rightarrow> Inr doc
      | Inl (YAMLError e) \<Rightarrow> Inl (ScoringError (''Invalid YAML format: '' @ e))
      | Inl e \<Rightarrow> Inl (ScoringError (''Error loading configuration: '' @ str_exc e)))"

text \<open>
  The two loops of \<^verbatim>\<open>_validate_config\<close>, which runs after \<^verbatim>\<open>_load_config\<close> and outside
  its \<^verbatim>\<open>try\<close> block: a \<^verbatim>\<open>TypeError\<close> of \<^verbatim>\<open>in\<close> or of a subscript leaves it as it is.
\<close>

fun check_sections :: "raw_config yaml_value \<Rightarrow> string list \<Rightarrow> py_error + unit" where
  "check_sections doc [] = Inr ()"
| "check_sections doc (s # ss) =
     (case py_in s doc config_has of
        Inl e \<Rightarrow> Inl e
      | Inr present \<Rightarrow>
          if \<not> present then Inl (ScoringError (''Missing required config section: '' @ s))
          else check_sections doc ss)"

fun check_modules :: "raw_config yaml_value \<Rightarrow> string list \<Rightarrow> py_error + unit" where
  "check_modules doc [] = Inr ()"
| "check_modules doc (m # ms) =
     (case config_weights doc of
        Inl e \<Rightarrow> Inl e
      | Inr w \<Rightarrow>
          (case py_in m w weights_has of
             Inl e \<Rightarrow> Inl e
           | Inr weighted \<Rightarrow>
               if \<not> weighted then Inl (ScoringError (''Missing weight for module: '' @ m))
               else (case config_thresholds doc of
                       Inl e \<Rightarrow> Inl e
                     | Inr th \<Rightarrow>
                         (case py_in m th thresholds_has of
                            Inl e \<Rightarrow> Inl e
                          | Inr present \<Rightarrow>
                              if \<not> present
                              then Inl (ScoringError (''Missing thresholds for module: '' @ m))
                              else check_modules doc ms))))"

definition validate_config :: "aggregator \<Rightarrow> py_error + unit" where
  "validate_config self =
     (case check_sections (config self) [''weights'', ''thresholds''] of
        Inl e \<Rightarrow> Inl e
      | Inr _ \<Rightarrow> check_modules (config self) required_modules)"

text \<open>\<^verbatim>\<open>MetaScoringAggregator.__init__\<close>.\<close>

definition init :: "(string \<Rightarrow> file_state) \<Rightarrow> string \<Rightarrow> py_error + aggregator" where
  "init fs config_path =
     (case load_config fs config_path of
        Inl e \<Rightarrow> Inl e
      | Inr doc \<Rightarrow>
          (case validate_config \<lparr>config = doc\<rparr> of
             Inl e \<Rightarrow> Inl e
           | Inr _ \<Rightarrow> Inr \<lparr>config = doc\<rparr>))"

section \<open>Aggregation\<close>

definition validate_input :: "request \<Rightarrow> py_error + output_bundle" where
  "validate_input module_outputs =
     (case module_outputs of
        NotADict \<Rightarrow> Inl (ScoringError ''Input must be a dictionary'')
      | Dict b \<Rightarrow>
          if bundle_empty b then Inl (ScoringError ''Input dictionary cannot be empty'')
          else (let missing = filter (\<lambda>m. \<not> bundle_has b m) required_modules
                in if missing \<noteq> []
                   then Inl (ScoringError (''Missing required modules: '' @ repr_list missing))
                   else Inr b))"

text \<open>
  \<^verbatim>\<open>module_data = module_outputs.get(module_name, {})\<close>: the module record, or an empty
  dict when the key is absent.
\<close>

definition docking_of :: "output_bundle \<Rightarrow> docking_data" where
  "docking_of outs =
     get_default (docking outs) \<lparr>affinity_kcal = None, rmsd = None, num_converged_poses = None\<rparr>"

definition adme_pk_of :: "output_bundle \<Rightarrow> adme_data" where
  "adme_pk_of outs =
     get_default (adme_pk outs)
       \<lparr>logP = None, HIA = None, half_life_hr = None, clearance = None, CYP_inhibition = None\<rparr>"

definition toxicity_of :: "output_bundle \<Rightarrow> tox_data" where
  "toxicity_of outs =
     get_default (toxicity outs) \<lparr>num_models_flagged = None, high_risk_models = None\<rparr>"

definition druggability_of :: "output_bundle \<Rightarrow> drugg_data" where
  "druggability_of outs =
     get_default (druggability outs) \<lparr>pocket_score = None, volume = None, hydrophobicity = None\<rparr>"

definition drug_likeness_of :: "output_bundle \<Rightarrow> dl_data" where
  "drug_likeness_of outs = get_default (drug_likeness outs) \<lparr>num_violations = None\<rparr>"

definition off_target_of :: "output_bundle \<Rightarrow> ot_data" where
  "off_target_of outs =
     get_default (off_target outs) \<lparr>selectivity_index = None, num_off_targets = None\<rparr>"

text \<open>
  The two branches of the loop body, each after the lookups of the module record and of
  \<^verbatim>\<open>thresholds[module_name]\<close> (a \<^verbatim>\<open>KeyError\<close> when absent): the toxicity rule, which
  returns a pair, and the rule that the dispatcher holds for any other module name, whose
  score is a number.
\<close>

definition call_toxicity :: "output_bundle \<Rightarrow> thresholds_cfg \<Rightarrow> py_error + (int \<times> string option)" where
  "call_toxicity outs th =
     (case th_toxicity th of
        None \<Rightarrow> Inl (KeyError ''toxicity'')
      | Some cfg \<Rightarrow> Inr (score_toxicity (toxicity_of outs) cfg))"

definition call_rule :: "string \<Rightarrow> output_bundle \<Rightarrow> thresholds_cfg \<Rightarrow> py_error + rat" where
  "call_rule module_name outs th =
     (if module_name = ''docking'' then
        (case th_docking th of
           None \<Rightarrow> Inl (KeyError module_name)
         | Some cfg \<Rightarrow> Inr (of_int (score_docking (docking_of outs) cfg)))
      else if module_name = ''adme_pk'' then
        (case th_adme_pk th of
           None \<Rightarrow> Inl (KeyError module_name)
         | Some cfg \<Rightarrow> score_adme_pk (adme_pk_of outs) cfg)
      else if module_name = ''druggability'' then
        (case th_druggability th of
           None \<Rightarrow> Inl (KeyError module_name)
         | Some cfg \<Rightarrow> Inr (score_druggability (druggability_of outs) cfg))
      else if module_name = ''drug_likeness'' then
        (case th_drug_likeness th of
           None \<Rightarrow> Inl (KeyError module_name)
         | Some cfg \<Rightarrow> score_drug_likeness (drug_likeness_of outs) cfg)
      else if module_name = ''off_target'' then
        (case th_off_target th of
           None \<Rightarrow> Inl (KeyError module_name)
         | Some cfg \<Rightarrow> score_off_target (off_target_of outs) cfg)
      else Inl (KeyError module_name))"

definition override_message :: "string \<Rightarrow> string" where
  "override_message failure = ''Toxicity override triggered: '' @ failure"

text \<open>
  One pass of the loop over \<^verbatim>\<open>scoring_functions.items()\<close>: the score of the module and
  the \<^verbatim>\<open>failure_rationale\<close> after it, which only the toxicity branch extends.
\<close>

definition module_step ::
  "string \<Rightarrow> output_bundle \<Rightarrow> thresholds_cfg \<Rightarrow> string list \<Rightarrow> py_error + (rat \<times> string list)" where
  "module_step module_name outs th failure_rationale =
     (if module_name = ''toxicity'' then
        (case call_toxicity outs th of
           Inl e \<Rightarrow> Inl e
         | Inr (score, failure) \<Rightarrow>
             if truthy failure
             then Inr (of_int score, failure_rationale @ [override_message (the failure)])
             else Inr (of_int score, failure_rationale))
      else
        (case call_rule module_name outs th of
           Inl e \<Rightarrow> Inl e
         | Inr score \<Rightarrow> Inr (score, failure_rationale)))"

text \<open>
  The loop, with its three accumulators \<^verbatim>\<open>score_breakdown\<close>, \<^verbatim>\<open>failure_rationale\<close> and
  \<^verbatim>\<open>total_score\<close>; \<^verbatim>\<open>score_breakdown[module_name] = score\<close> is the update of a dict
  that keeps insertion order.
\<close>

fun score_loop ::
  "string list \<Rightarrow> output_bundle \<Rightarrow> thresholds_cfg \<Rightarrow> (string \<times> rat) list \<times> string list \<times> rat
     \<Rightarrow> py_error + ((string \<times> rat) list \<times> string list \<times> rat)" where
  "score_loop [] outs th acc = Inr acc"
| "score_loop (module_name # rest) outs th (score_breakdown, failure_rationale, total_score) =
     (case module_step module_name outs th failure_rationale of
        Inl e \<Rightarrow> Inl e
      | Inr (score, failure_rationale') \<Rightarrow>
          score_loop rest outs th
            (AList.update module_name score score_breakdown, failure_rationale',
             total_score + score))"

text \<open>The keys of the dispatcher \<^verbatim>\<open>scoring_functions\<close>, in the order of the dict literal.\<close>

definition scoring_functions :: "string list" where
  "scoring_functions =
     [''docking'', ''adme_pk'', ''toxicity'', ''druggability'', ''drug_likeness'', ''off_target'']"

record result =
  svs_score :: int
  go_decision :: string
  score_breakdown :: "(string \<times> rat) list"
  failure_rationale :: "string list"

text \<open>
  \<^verbatim>\<open>aggregate_scores\<close>: validation, \<^verbatim>\<open>self.config["thresholds"]\<close>, the loop,
  \<^verbatim>\<open>int(total_score)\<close> with the clamp, and the decision. The first pass of the loop
  subscripts \<^verbatim>\<open>thresholds\<close> with a module name, a \<^verbatim>\<open>TypeError\<close> when it is not a dict.
\<close>

definition aggregate_scores :: "aggregator \<Rightarrow> request \<Rightarrow> py_error + result" where
  "aggregate_scores self module_outputs =
     (case validate_input module_outputs of
        Inl e \<Rightarrow> Inl e
      | Inr outs \<Rightarrow>
          (case config_thresholds (config self) of
             Inl e \<Rightarrow> Inl e
           | Inr (YMap th) \<Rightarrow>
               (case score_loop scoring_functions outs th ([], [], 0) of
                  Inl e \<Rightarrow> Inl e
                | Inr (breakdown, rationale, total_score) \<Rightarrow>
                    (let svs = min (max (py_int total_score) 0) 100;
                         go = (if svs \<ge> 70 \<and> rationale = [] then ''go'' else ''no-go'')
                     in Inr \<lparr>svs_score = svs, go_decision = go,
                             score_breakdown = breakdown, failure_rationale = rationale\<rparr>))
           | Inr other \<Rightarrow> Inl TypeError))"

section \<open>Aggregation with the store made explicit\<close>

text \<open>
  \<^verbatim>\<open>aggregate_scores\<close> once more, now with every object it can write to: the dict
  \<^verbatim>\<open>score_breakdown\<close> and the list \<^verbatim>\<open>failure_rationale\<close> are objects of a store, created
  by the call and updated in place by the loop, and the logger receives messages. The
  call returns its outcome together with \<^verbatim>\<open>self\<close>, the argument and the store as they are
  when it ends. The rules and \<^verbatim>\<open>_validate_input\<close> only read their arguments, so they
  are the functions above.
\<close>

type_synonym addr = nat

record store =
  dict_objs :: "(string \<times> rat) list list"
  list_objs :: "string list list"
  log_records :: "string list"

definition new_dict :: "store \<Rightarrow> addr \<times> store" where
  "new_dict st = (length (dict_objs st), st\<lparr>dict_objs := dict_objs st @ [[]]\<rparr>)"

definition new_list :: "store \<Rightarrow> addr \<times> store" where
  "new_list st = (length (list_objs st), st\<lparr>list_objs := list_objs st @ [[]]\<rparr>)"

definition logger_call :: "string \<Rightarrow> store \<Rightarrow> store" where
  "logger_call msg st = st\<lparr>log_records := log_records st @ [msg]\<rparr>"

text \<open>\<^verbatim>\<open>failure_rationale.append(x)\<close> and \<^verbatim>\<open>score_breakdown[k] = v\<close> on the objects.\<close>

definition list_append :: "addr \<Rightarrow> string \<Rightarrow> store \<Rightarrow> store" where
  "list_append a x st = st\<lparr>list_objs := (list_objs st)[a := list_objs st ! a @ [x]]\<rparr>"

definition dict_set :: "addr \<Rightarrow> string \<Rightarrow> rat \<Rightarrow> store \<Rightarrow> store" where
  "dict_set a k v st = st\<lparr>dict_objs := (dict_objs st)[a := AList.update k v (dict_objs st ! a)]\<rparr>"

definition module_step_st ::
  "string \<Rightarrow> output_bundle \<Rightarrow> thresholds_cfg \<Rightarrow> addr \<Rightarrow> store \<Rightarrow> (py_error + rat) \<times> store" where
  "module_step_st module_name outs th rationale_ref st =
     (if module_name = ''toxicity'' then
        (case call_toxicity outs th of
           Inl e \<Rightarrow> (Inl e, st)
         | Inr (score, failure) \<Rightarrow>
             if truthy failure
             then (Inr (of_int score),
                   list_append rationale_ref (override_message (the failure))
                     (logger_call (override_message (the failure)) st))
             else (Inr (of_int score), st))
      else
        (case call_rule module_name outs th of
           Inl e \<Rightarrow> (Inl e, st)
         | Inr score \<Rightarrow> (Inr score, st)))"

fun score_loop_st ::
  "string list \<Rightarrow> output_bundle \<Rightarrow> thresholds_cfg \<Rightarrow> addr \<Rightarrow> addr \<Rightarrow> rat \<Rightarrow> store
     \<Rightarrow> (py_error + rat) \<times> store" where
  "score_loop_st [] outs th breakdown_ref rationale_ref total_score st = (Inr total_score, st)"
| "score_loop_st (module_name # rest) outs th breakdown_ref rationale_ref total_score st =
     (case module_step_st module_name outs th rationale_ref st of
        (Inl e, st1) \<Rightarrow> (Inl e, st1)
      | (Inr score, st1) \<Rightarrow>
          score_loop_st rest outs th breakdown_ref rationale_ref (total_score + score)
            (dict_set breakdown_ref module_name score st1))"

text \<open>The returned dict: two values and the references to the two objects.\<close>

record result_ref =
  ref_svs_score :: int
  ref_go_decision :: string
  ref_score_breakdown :: addr
  ref_failure_rationale :: addr

definition aggregate_scores_st ::
  "aggregator \<Rightarrow> request \<Rightarrow> store \<Rightarrow> (py_error + result_ref) \<times> aggregator \<times> request \<times> store" where
  "aggregate_scores_st self module_outputs st0 =
     (let st1 = logger_call ''Aggregating scores for compound.'' st0
      in case validate_input module_outputs of
           Inl e \<Rightarrow> (Inl e, self, module_outputs, st1)
         | Inr outs \<Rightarrow>
             (case config_thresholds (config self) of
                Inl e \<Rightarrow> (Inl e, self, module_outputs, st1)
              | Inr thresholds_value \<Rightarrow>
                  (case new_dict st1 of
                     (breakdown_ref, st2) \<Rightarrow>
                       (case new_list st2 of
                          (rationale_ref, st3) \<Rightarrow>
                            (case thresholds_value of
                               YMap th \<Rightarrow>
                                 (case score_loop_st scoring_functions outs th breakdown_ref
                                         rationale_ref 0 st3 of
                                    (Inl e, st4) \<Rightarrow> (Inl e, self, module_outputs, st4)
                                  | (Inr total_score, st4) \<Rightarrow>
                                      (let svs = min (max (py_int total_score) 0) 100;
                                           go = (if svs \<ge> 70
                                                    \<and> list_objs st4 ! rationale_ref = []
                                                 then ''go'' else ''no-go'')
                                       in (Inr \<lparr>ref_svs_score = svs, ref_go_decision = go,
                                                 ref_score_breakdown = breakdown_ref,
                                                 ref_failure_rationale = rationale_ref\<rparr>,
                                           self, module_outputs, st4)))
                             | other \<Rightarrow> (Inl TypeError, self, module_outputs, st3))))))"

text \<open>What a caller reads through the references of an outcome.\<close>

definition read_outcome :: "store \<Rightarrow> py_error + result_ref \<Rightarrow> py_error + result" where
  "read_outcome st out =
     (case out of
        Inl e \<Rightarrow> Inl e
      | Inr r \<Rightarrow> Inr \<lparr>svs_score = ref_svs_score r, go_decision = ref_go_decision r,
                      score_breakdown = dict_objs st ! ref_score_breakdown r,
                      failure_rationale = list_objs st ! ref_failure_rationale r\<rparr>)"

section \<open>Vocabulary of the properties\<close>

text \<open>The rationale entries that the toxicity module contributes to one call.\<close>

definition tox_entries :: "output_bundle \<Rightarrow> thresholds_cfg \<Rightarrow> string list" where
  "tox_entries outs th =
     (case th_toxicity th of
        None \<Rightarrow> []
      | Some cfg \<Rightarrow>
          (let failure = snd (score_toxicity (toxicity_of outs) cfg)
           in if truthy failure then [override_message (the failure)] else []))"

text \<open>The parts of a toxicity score that the rule combines.\<close>

definition flagged :: "tox_data \<Rightarrow> pynum" where
  "flagged tox_data = get_default (num_models_flagged tox_data) (Fin 0)"

definition penalised :: "tox_data \<Rightarrow> tox_cfg \<Rightarrow> string list" where
  "penalised tox_data cfg =
     filter (\<lambda>m. m \<in> set (override_models cfg)) (get_default (high_risk_models tox_data) [])"

definition flags_reason :: "tox_cfg \<Rightarrow> string" where
  "flags_reason cfg = ''>'' @ str_int (max_flags_allowed cfg) @ '' toxicity models flagged''"

definition penalty_reason :: "tox_data \<Rightarrow> tox_cfg \<Rightarrow> string" where
  "penalty_reason tox_data cfg = ''High-risk models flagged: '' @ join '', '' (penalised tox_data cfg)"

text \<open>An outcome that is a \<^verbatim>\<open>ScoringError\<close>, the one error class the program raises itself.\<close>

fun is_scoring_error :: "py_error + 'a \<Rightarrow> bool" where
  "is_scoring_error (Inl (ScoringError m)) = True"
| "is_scoring_error other = False"

text \<open>A module without a weight, or without thresholds, in a configuration.\<close>

definition lacks_weight :: "raw_config \<Rightarrow> string \<Rightarrow> bool" where
  "lacks_weight c m =
     (case weights c of Some (YMap w) \<Rightarrow> \<not> weights_has w m | other \<Rightarrow> True)"

definition lacks_thresholds :: "raw_config \<Rightarrow> string \<Rightarrow> bool" where
  "lacks_thresholds c m =
     (case thresholds c of Some (YMap th) \<Rightarrow> \<not> thresholds_has th m | other \<Rightarrow> True)"

text \<open>
  The configuration failures that the specification lists: the source does not exist, is
  syntactically invalid, parses to an empty or null value, lacks a required section, or
  lacks one of the six modules in \<^verbatim>\<open>weights\<close> or in \<^verbatim>\<open>thresholds\<close>. A document that is
  not a mapping has no sections.
\<close>

definition spec_config_failure :: "file_state \<Rightarrow> bool" where
  "spec_config_failure f =
     (case f of
        Absent \<Rightarrow> True
      | Unreadable e \<Rightarrow> False
      | Malformed e \<Rightarrow> True
      | Loads doc \<Rightarrow>
          \<not> doc_truthy doc
          \<or> (case doc of
                YMap c \<Rightarrow>
                  weights c = None \<or> thresholds c = None
                  \<or> list_ex (\<lambda>m. lacks_weight c m \<or> lacks_thresholds c m) required_modules
              | other \<Rightarrow> True))"

text \<open>
  A source whose document, when it is not empty or null, is a mapping whose \<^verbatim>\<open>weights\<close>
  and \<^verbatim>\<open>thresholds\<close>, where present, are mappings.
\<close>

definition mapping_section :: "'m yaml_value option \<Rightarrow> bool" where
  "mapping_section v = (case v of None \<Rightarrow> True | Some (YMap m) \<Rightarrow> True | Some other \<Rightarrow> False)"

definition mapping_document :: "file_state \<Rightarrow> bool" where
  "mapping_document f =
     (case f of
        Loads (YMap c) \<Rightarrow> mapping_section (weights c) \<and> mapping_section (thresholds c)
      | Loads other \<Rightarrow> \<not> doc_truthy other
      | no_document \<Rightarrow> True)"

text \<open>The scores that only add: their bonus values and table entries are not negative.\<close>

definition nonneg_bonuses :: "thresholds_cfg \<Rightarrow> bool" where
  "nonneg_bonuses th =
     ((case th_druggability th of None \<Rightarrow> True | Some c \<Rightarrow> 0 \<le> volume_hydrophobicity_bonus c)
      \<and> (case th_drug_likeness th of
            None \<Rightarrow> True
          | Some c \<Rightarrow> list_all (\<lambda>(k, s). 0 \<le> s) (score_by_violations c))
      \<and> (case th_off_target th of None \<Rightarrow> True | Some c \<Rightarrow> 0 \<le> low_target_bonus c))"

text \<open>
  Thresholds on which no rule raises: all six entries are present, \<^verbatim>\<open>logP_range\<close> has two
  elements, \<^verbatim>\<open>si_thresholds\<close> has three and \<^verbatim>\<open>score_by_violations\<close> is not empty.
\<close>

definition well_shaped :: "thresholds_cfg \<Rightarrow> bool" where
  "well_shaped th =
     (th_docking th \<noteq> None \<and> th_toxicity th \<noteq> None \<and> th_druggability th \<noteq> None
      \<and> (case th_adme_pk th of None \<Rightarrow> False | Some c \<Rightarrow> 2 \<le> length (logP_range c))
      \<and> (case th_drug_likeness th of None \<Rightarrow> False | Some c \<Rightarrow> score_by_violations c \<noteq> [])
      \<and> (case th_off_target th of None \<Rightarrow> False | Some c \<Rightarrow> 3 \<le> length (si_thresholds c)))"

section \<open>Example configuration and inputs\<close>

definition ex_tox_cfg :: tox_cfg where
  "ex_tox_cfg = \<lparr>max_flags_allowed = 3, override_models = [''DILIrank'', ''ProTox-II'']\<rparr>"

definition ex_thresholds :: thresholds_cfg where
  "ex_thresholds =
     \<lparr>th_docking = Some \<lparr>affinity = \<lparr>high = Fin (- 9), medium = Fin (- 8), low = Fin (- 7)\<rparr>,
                          rmsd_max = Fin 3, min_poses = Fin 3\<rparr>,
      th_adme_pk = Some \<lparr>logP_range = [Fin 0, Fin 5], half_life_min = Fin 2,
                          clearance_acceptable = [''acceptable'', ''moderate''],
                          cyp_inhibition_penalty = - 5\<rparr>,
      th_toxicity = Some ex_tox_cfg,
      th_druggability = Some \<lparr>high_score = Fin (7 / 10), mid_score = Fin (1 / 2),
                               bonus_volume_min = Fin 400, bonus_hydrophobicity_min = Fin (1 / 2),
                               volume_hydrophobicity_bonus = 2\<rparr>,
      th_drug_likeness = Some \<lparr>score_by_violations = [(0, 10), (1, 5), (2, 2), (3, 0)]\<rparr>,
      th_off_target = Some \<lparr>si_thresholds = [Fin 2, Fin 5, Fin 10],
                             low_target_bonus_threshold = Fin 5, low_target_bonus = 3\<rparr>\<rparr>"

definition ex_weights :: "(string \<times> rat) list" where
  "ex_weights = [(''docking'', 25), (''adme_pk'', 20), (''toxicity'', 20), (''druggability'', 10),
                 (''drug_likeness'', 10), (''off_target'', 15)]"

definition ex_config :: raw_config where
  "ex_config = \<lparr>weights = Some (YMap ex_weights), thresholds = Some (YMap ex_thresholds),
                 other_sections = []\<rparr>"

definition ex_self :: aggregator where
  "ex_self = \<lparr>config = YMap ex_config\<rparr>"

text \<open>A near-perfect compound: every module at its best score.\<close>

definition near_perfect :: output_bundle where
  "near_perfect =
     \<lparr>docking = Some \<lparr>affinity_kcal = Some (Fin (- 19 / 2)), rmsd = Some (Fin (3 / 2)),
                       num_converged_poses = Some (Fin 5)\<rparr>,
      adme_pk = Some \<lparr>logP = Some (Fin 3), HIA = Some ''high'', half_life_hr = Some (Fin 5),
                       clearance = Some ''acceptable'', CYP_inhibition = Some False\<rparr>,
      toxicity = Some \<lparr>num_models_flagged = Some (Fin 0), high_risk_models = Some []\<rparr>,
      druggability = Some \<lparr>pocket_score = Some (Fin (4 / 5)), volume = Some (Fin 450),
                            hydrophobicity = Some (Fin (3 / 5))\<rparr>,
      drug_likeness = Some \<lparr>num_violations = Some (Fin 0)\<rparr>,
      off_target = Some \<lparr>selectivity_index = Some (Fin 12), num_off_targets = Some (Fin 3)\<rparr>,
      other_keys = []\<rparr>"

definition near_perfect_res :: result where
  "near_perfect_res =
     \<lparr>svs_score = 100, go_decision = ''go'',
      score_breakdown = [(''docking'', 25), (''adme_pk'', 20), (''toxicity'', 20),
                         (''druggability'', 12), (''drug_likeness'', 10), (''off_target'', 18)],
      failure_rationale = []\<rparr>"

text \<open>Four flagged models, two of them in the override list.\<close>

definition four_flags :: tox_data where
  "four_flags = \<lparr>num_models_flagged = Some (Fin 4),
                  high_risk_models = Some [''DILIrank'', ''ProTox-II'']\<rparr>"

definition overridden :: output_bundle where
  "overridden = near_perfect\<lparr>toxicity := Some four_flags\<rparr>"

definition overridden_res :: result where
  "overridden_res =
     \<lparr>svs_score = 85, go_decision = ''no-go'',
      score_breakdown = [(''docking'', 25), (''adme_pk'', 20), (''toxicity'', 0),
                         (''druggability'', 12), (''drug_likeness'', 10), (''off_target'', 18)],
      failure_rationale =
        [''Toxicity override triggered: >3 toxicity models flagged; High-risk models flagged: DILIrank, ProTox-II'']\<rparr>"

text \<open>A compound whose six scores are 20, 20, 10, 12, 2 and 5.\<close>

definition just_below :: output_bundle where
  "just_below =
     \<lparr>docking = Some \<lparr>affinity_kcal = Some (Fin (- 17 / 2)), rmsd = Some (Fin 2),
                       num_converged_poses = Some (Fin 4)\<rparr>,
      adme_pk = Some \<lparr>logP = Some (Fin 3), HIA = Some ''HIGH'', half_life_hr = Some (Fin 5),
                       clearance = Some ''Acceptable'', CYP_inhibition = Some False\<rparr>,
      toxicity = Some \<lparr>num_models_flagged = Some (Fin 1), high_risk_models = Some []\<rparr>,
      druggability = Some \<lparr>pocket_score = Some (Fin (4 / 5)), volume = Some (Fin 450),
                            hydrophobicity = Some (Fin (3 / 5))\<rparr>,
      drug_likeness = Some \<lparr>num_violations = Some (Fin 2)\<rparr>,
      off_target = Some \<lparr>selectivity_index = Some (Fin 3), num_off_targets = Some (Fin 5)\<rparr>,
      other_keys = []\<rparr>"

definition just_below_res :: result where
  "just_below_res =
     \<lparr>svs_score = 69, go_decision = ''no-go'',
      score_breakdown = [(''docking'', 20), (''adme_pk'', 20), (''toxicity'', 10),
                         (''druggability'', 12), (''drug_likeness'', 2), (''off_target'', 5)],
      failure_rationale = []\<rparr>"

text \<open>An input without the keys \<^verbatim>\<open>toxicity\<close> and \<^verbatim>\<open>off_target\<close>.\<close>

definition two_missing :: output_bundle where
  "two_missing = near_perfect\<lparr>toxicity := None, off_target := None\<rparr>"

text \<open>A configuration whose off-target bonus is negative, and a compound that earns it.\<close>

definition malus_self :: aggregator where
  "malus_self =
     \<lparr>config = YMap (ex_config\<lparr>thresholds := Some (YMap (ex_thresholds
        \<lparr>th_off_target := Some \<lparr>si_thresholds = [Fin 2, Fin 5, Fin 10],
                                 low_target_bonus_threshold = Fin 5,
                                 low_target_bonus = - 3\<rparr>\<rparr>))\<rparr>)\<rparr>"

definition unselective :: output_bundle where
  "unselective =
     near_perfect\<lparr>off_target := Some \<lparr>selectivity_index = Some (Fin 1),
                                        num_off_targets = Some (Fin 2)\<rparr>\<rparr>"

definition malus_fs :: "string \<Rightarrow> file_state" where
  "malus_fs path =
     (if path = ''score_config.yaml'' then Loads (config malus_self) else Absent)"




definition malus_res :: result where
  "malus_res =
     \<lparr>svs_score = 84, go_decision = ''go'',
      score_breakdown = [(''docking'', 25), (''adme_pk'', 20), (''toxicity'', 20),
                         (''druggability'', 12), (''drug_likeness'', 10), (''off_target'', - 3)],
      failure_rationale = []\<rparr>"

text \<open>No flag allowed, and one model flagged.\<close>

definition strict_tox_cfg :: tox_cfg where
  "strict_tox_cfg = \<lparr>max_flags_allowed = 0, override_models = [''DILIrank'']\<rparr>"

definition one_flag :: tox_data where
  "one_flag = \<lparr>num_models_flagged = Some (Fin 1), high_risk_models = Some []\<rparr>"

text \<open>A violations table whose largest key is 5.\<close>

definition table_to_5 :: dl_cfg where
  "table_to_5 = \<lparr>score_by_violations = [(0, 10), (1, 8), (3, 4), (5, 1), (2, 6)]\<rparr>"

text \<open>
  Three file systems: one that holds the example configuration at the default path, one
  whose \<^verbatim>\<open>conf\<close> is a directory, which exists and cannot be opened, and one whose
  \<^verbatim>\<open>conf\<close> holds the document \<^verbatim>\<open>42\<close>.
\<close>

definition ex_fs :: "string \<Rightarrow> file_state" where
  "ex_fs path = (if path = ''score_config.yaml'' then Loads (YMap ex_config) else Absent)"

definition dir_error :: string where
  "dir_error = ''[Errno 21] Is a directory: '' @ repr_str ''conf''"

definition dir_fs :: "string \<Rightarrow> file_state" where
  "dir_fs path = (if path = ''conf'' then Unreadable dir_error else Absent)"

definition number_fs :: "string \<Rightarrow> file_state" where
  "number_fs path = (if path = ''conf'' then Loads (YScalar True) else Absent)"

text \<open>A configuration without the weight of \<^verbatim>\<open>toxicity\<close> and the thresholds of \<^verbatim>\<open>adme_pk\<close>.\<close>

definition gappy_config :: raw_config where
  "gappy_config =
     \<lparr>weights = Some (YMap [(''docking'', 25), (''adme_pk'', 20), (''druggability'', 10),
                             (''drug_likeness'', 10), (''off_target'', 15)]),
      thresholds = Some (YMap (ex_thresholds\<lparr>th_adme_pk := None\<rparr>)),
      other_sections = []\<rparr>"

definition ex_store :: store where
  "ex_store = \<lparr>dict_objs = [[(''docking'', 1)]], list_objs = [[''kept'']], log_records = []\<rparr>"

definition gappy_fs :: "string \<Rightarrow> file_state" where
  "gappy_fs path = (if path = ''score_config.yaml'' then Loads (YMap gappy_config) else Absent)"

text \<open>
  Two calls in a row on the overridden compound, from a store that already holds objects,
  and the stores that they leave.
\<close>

definition ex_store1 :: store where
  "ex_store1 =
     \<lparr>dict_objs = [[(''docking'', 1)], score_breakdown overridden_res],
      list_objs = [[''kept''], failure_rationale overridden_res],
      log_records = ''Aggregating scores for compound.'' # failure_rationale overridden_res\<rparr>"

definition first_ref :: result_ref where
  "first_ref = \<lparr>ref_svs_score = 85, ref_go_decision = ''no-go'',
                 ref_score_breakdown = 1, ref_failure_rationale = 1\<rparr>"

definition second_call :: "(py_error + result_ref) \<times> aggregator \<times> request \<times> store" where
  "second_call = aggregate_scores_st ex_self (Dict overridden) ex_store1"

section \<open>The loop and its accumulators\<close>

lemma update_fresh: "k \<notin> fst ` set al \<Longrightarrow> AList.update k v al = al @ [(k, v)]"
  by (induction al) auto

lemma module_step_rationale:
  assumes "module_step m outs th fr = Inr (s, fr')"
  shows "fr' = fr @ (if m = ''toxicity'' then tox_entries outs th else [])"
  using assms
  by (auto simp: module_step_def tox_entries_def call_toxicity_def Let_def
           split: if_splits option.splits sum.splits prod.splits)

lemma score_loop_rationale:
  assumes "score_loop ms outs th (bd, fr, tot) = Inr (bd', fr', tot')" and "distinct ms"
  shows "fr' = fr @ (if ''toxicity'' \<in> set ms then tox_entries outs th else [])"
  using assms
proof (induction ms arbitrary: bd fr tot)
  case Nil
  then show ?case by simp
next
  case (Cons m ms)
  from Cons.prems(1) obtain s fr1 where
    step: "module_step m outs th fr = Inr (s, fr1)" and
    rest: "score_loop ms outs th (AList.update m s bd, fr1, tot + s) = Inr (bd', fr', tot')"
    by (auto split: sum.splits)
  from Cons.prems(2) have d: "distinct ms" and nm: "m \<notin> set ms" by simp_all
  from Cons.IH [OF rest d] module_step_rationale [OF step] nm
  show ?case by auto
qed

lemma score_loop_total:
  assumes "score_loop ms outs th (bd, fr, tot) = Inr (bd', fr', tot')"
    and "distinct ms" and "set ms \<inter> fst ` set bd = {}"
  shows "tot' - sum_list (map snd bd') = tot - sum_list (map snd bd)
         \<and> map fst bd' = map fst bd @ ms"
  using assms
proof (induction ms arbitrary: bd fr tot)
  case Nil
  then show ?case by simp
next
  case (Cons m ms)
  from Cons.prems(1) obtain s fr1 where
    rest: "score_loop ms outs th (AList.update m s bd, fr1, tot + s) = Inr (bd', fr', tot')"
    by (auto split: sum.splits)
  from Cons.prems(3) have "m \<notin> fst ` set bd" by auto
  then have upd: "AList.update m s bd = bd @ [(m, s)]" by (rule update_fresh)
  from Cons.prems have d: "distinct ms" and disj: "set ms \<inter> fst ` set (bd @ [(m, s)]) = {}"
    by auto
  from Cons.IH [OF rest [unfolded upd] d disj]
  show ?case by simp
qed

lemma distinct_scoring_functions: "distinct scoring_functions"
  by (simp add: scoring_functions_def)

lemma toxicity_in_scoring_functions: "''toxicity'' \<in> set scoring_functions"
  by (simp add: scoring_functions_def)

lemma aggregate_scores_InrD:
  assumes "aggregate_scores self module_outputs = Inr res"
  obtains outs th bd fr tot where
    "validate_input module_outputs = Inr outs" "config_thresholds (config self) = Inr (YMap th)"
    "score_loop scoring_functions outs th ([], [], 0) = Inr (bd, fr, tot)"
    "res = \<lparr>svs_score = min (max (py_int tot) 0) 100,
            go_decision = (if min (max (py_int tot) 0) 100 \<ge> 70 \<and> fr = [] then ''go'' else ''no-go''),
            score_breakdown = bd, failure_rationale = fr\<rparr>"
  using assms
  by (auto simp: aggregate_scores_def Let_def
           split: sum.splits option.splits prod.splits yaml_value.splits)

lemma validate_input_InrD: "validate_input module_outputs = Inr outs \<Longrightarrow> module_outputs = Dict outs"
  by (auto simp: validate_input_def Let_def split: request.splits if_splits)

lemma aggregate_scores_rationale:
  assumes "aggregate_scores self (Dict outs) = Inr res" and "config_thresholds (config self) = Inr (YMap th)"
  shows "failure_rationale res = tox_entries outs th"
proof -
  from assms(1) obtain outs' th' bd fr tot where
    v: "validate_input (Dict outs) = Inr outs'" and t: "config_thresholds (config self) = Inr (YMap th')" and
    loop: "score_loop scoring_functions outs' th' ([], [], 0) = Inr (bd, fr, tot)" and
    res: "res = \<lparr>svs_score = min (max (py_int tot) 0) 100,
            go_decision = (if min (max (py_int tot) 0) 100 \<ge> 70 \<and> fr = [] then ''go'' else ''no-go''),
            score_breakdown = bd, failure_rationale = fr\<rparr>"
    by (rule aggregate_scores_InrD)
  from v have "outs' = outs" by (auto dest: validate_input_InrD)
  moreover from t assms(2) have "th' = th" by simp
  ultimately have "fr = tox_entries outs th"
    using score_loop_rationale [OF loop distinct_scoring_functions] toxicity_in_scoring_functions
    by simp
  with res show ?thesis by simp
qed

lemma score_toxicity_reason_nonempty: "snd (score_toxicity d c) = Some r \<Longrightarrow> r \<noteq> []"
  by (auto simp: score_toxicity_def Let_def split: if_splits option.splits)

section \<open>The result of an aggregation\<close>


lemma near_perfect_result: "aggregate_scores ex_self (Dict near_perfect) = Inr near_perfect_res"
  by code_simp

lemma just_below_result: "aggregate_scores ex_self (Dict just_below) = Inr just_below_res"
  by code_simp

lemma overridden_result: "aggregate_scores ex_self (Dict overridden) = Inr overridden_res"
  by code_simp



text \<open>
  C2. Whenever \<^verbatim>\<open>aggregate_scores\<close> returns, the decision is \<^verbatim>\<open>go\<close> exactly when the
  score is at least 70 and \<^verbatim>\<open>failure_rationale\<close> is empty, and \<^verbatim>\<open>no-go\<close> in every other
  case: a sum of exactly 69 gives \<^verbatim>\<open>no-go\<close>, and so does every override reason that the
  toxicity rule returns, whatever the scores.
\<close>

theorem go_decision_iff:
  assumes "aggregate_scores self module_outputs = Inr res"
  shows "(go_decision res = ''go'' \<longleftrightarrow> 70 \<le> svs_score res \<and> failure_rationale res = [])
       \<and> (go_decision res \<noteq> ''go'' \<longrightarrow> go_decision res = ''no-go'')
       \<and> (sum_list (map snd (score_breakdown res)) = 69
            \<longrightarrow> svs_score res = 69 \<and> go_decision res = ''no-go'')
       \<and> (\<forall>outs th cfg reason.
             module_outputs = Dict outs \<and> config_thresholds (config self) = Inr (YMap th)
             \<and> th_toxicity th = Some cfg
             \<and> snd (score_toxicity (toxicity_of outs) cfg) = Some reason
             \<longrightarrow> go_decision res = ''no-go'')"
proof -
  from assms obtain outs th bd fr tot where
    v: "validate_input module_outputs = Inr outs" and t: "config_thresholds (config self) = Inr (YMap th)" and
    loop: "score_loop scoring_functions outs th ([], [], 0) = Inr (bd, fr, tot)" and
    res: "res = \<lparr>svs_score = min (max (py_int tot) 0) 100,
            go_decision = (if min (max (py_int tot) 0) 100 \<ge> 70 \<and> fr = [] then ''go'' else ''no-go''),
            score_breakdown = bd, failure_rationale = fr\<rparr>"
    by (rule aggregate_scores_InrD)
  from score_loop_total [OF loop distinct_scoring_functions]
  have tot: "tot = sum_list (map snd bd)" by simp
  have a: "go_decision res = ''go'' \<longleftrightarrow> 70 \<le> svs_score res \<and> failure_rationale res = []"
    using res by simp
  have b: "go_decision res \<noteq> ''go'' \<longrightarrow> go_decision res = ''no-go''"
    using res by simp
  have c: "sum_list (map snd (score_breakdown res)) = 69
            \<longrightarrow> svs_score res = 69 \<and> go_decision res = ''no-go''"
    using res tot by (simp add: py_int_def)
  have d: "go_decision res = ''no-go''"
    if h: "module_outputs = Dict outs'" "config_thresholds (config self) = Inr (YMap th')"
          "th_toxicity th' = Some cfg" "snd (score_toxicity (toxicity_of outs') cfg) = Some reason"
    for outs' th' cfg reason
  proof -
    from assms h(1) have "aggregate_scores self (Dict outs') = Inr res" by simp
    from aggregate_scores_rationale [OF this h(2)]
    have "failure_rationale res = tox_entries outs' th'" .
    moreover from h(4) have "reason \<noteq> []" by (rule score_toxicity_reason_nonempty)
    ultimately have "failure_rationale res \<noteq> []"
      using h(3,4) by (simp add: tox_entries_def)
    with res show ?thesis by simp
  qed
  from a b c d show ?thesis by blast
qed

theorem go_decision_iff_witness:
  "aggregate_scores ex_self (Dict just_below) = Inr just_below_res
   \<and> sum_list (map snd (score_breakdown just_below_res)) = 69
   \<and> svs_score just_below_res = 69
   \<and> failure_rationale just_below_res = []
   \<and> go_decision just_below_res = ''no-go''"
  using go_decision_iff [OF just_below_result] just_below_result
  by (simp add: just_below_res_def)

text \<open>
  C10. Whenever \<^verbatim>\<open>aggregate_scores\<close> returns, \<^verbatim>\<open>failure_rationale\<close> holds at most one
  string. It is empty when the toxicity rule, called once on the toxicity record and
  thresholds, returns no reason, and otherwise holds the single reason that the rule has
  merged, after the prefix \<^verbatim>\<open>Toxicity override triggered: \<close>.
\<close>

theorem failure_rationale_at_most_one:
  assumes "aggregate_scores self module_outputs = Inr res"
  shows "length (failure_rationale res) \<le> 1
       \<and> (\<exists>outs th cfg.
             module_outputs = Dict outs \<and> config_thresholds (config self) = Inr (YMap th)
             \<and> th_toxicity th = Some cfg
             \<and> failure_rationale res =
                 (case snd (score_toxicity (toxicity_of outs) cfg) of
                    None \<Rightarrow> []
                  | Some reason \<Rightarrow> [''Toxicity override triggered: '' @ reason]))"
proof -
  from assms obtain outs th bd fr tot where
    v: "validate_input module_outputs = Inr outs" and t: "config_thresholds (config self) = Inr (YMap th)" and
    loop: "score_loop scoring_functions outs th ([], [], 0) = Inr (bd, fr, tot)"
    by (rule aggregate_scores_InrD)
  from v have mo: "module_outputs = Dict outs" by (rule validate_input_InrD)
  obtain cfg where cfg: "th_toxicity th = Some cfg"
    using loop
    by (cases "th_toxicity th")
       (auto simp: scoring_functions_def module_step_def call_toxicity_def
             split: sum.splits prod.splits)
  from assms mo have "aggregate_scores self (Dict outs) = Inr res" by simp
  from aggregate_scores_rationale [OF this t]
  have fr: "failure_rationale res = tox_entries outs th" .
  have shape: "tox_entries outs th =
                 (case snd (score_toxicity (toxicity_of outs) cfg) of
                    None \<Rightarrow> []
                  | Some reason \<Rightarrow> [''Toxicity override triggered: '' @ reason])"
    using cfg
    by (auto simp: tox_entries_def override_message_def Let_def
             split: option.splits dest: score_toxicity_reason_nonempty)
  have "length (tox_entries outs th) \<le> 1"
    by (simp add: tox_entries_def Let_def split: option.splits)
  with fr shape mo t cfg show ?thesis by auto
qed

theorem failure_rationale_at_most_one_witness:
  "aggregate_scores ex_self (Dict overridden) = Inr overridden_res
   \<and> length (failure_rationale overridden_res) \<le> 1
   \<and> snd (score_toxicity (toxicity_of overridden) ex_tox_cfg) =
       Some ''>3 toxicity models flagged; High-risk models flagged: DILIrank, ProTox-II''
   \<and> failure_rationale overridden_res =
       [''Toxicity override triggered: >3 toxicity models flagged; High-risk models flagged: DILIrank, ProTox-II'']"
proof -
  have s: "snd (score_toxicity (toxicity_of overridden) ex_tox_cfg) =
       Some ''>3 toxicity models flagged; High-risk models flagged: DILIrank, ProTox-II''"
    by code_simp
  from failure_rationale_at_most_one [OF overridden_result] overridden_result s
  show ?thesis by (simp add: overridden_res_def)
qed
section \<open>The scoring rules\<close>

lemma score_docking_nonneg: "0 \<le> score_docking d c"
  by (simp add: score_docking_def Let_def)

lemma score_adme_pk_nonneg: "score_adme_pk d c = Inr s \<Longrightarrow> 0 \<le> s"
  by (auto simp: score_adme_pk_def Let_def split: sum.splits)

lemma score_toxicity_nonneg: "0 \<le> fst (score_toxicity d c)"
  by (simp add: score_toxicity_def Let_def split: prod.splits)

lemma score_druggability_nonneg:
  "0 \<le> volume_hydrophobicity_bonus c \<Longrightarrow> 0 \<le> score_druggability d c"
  by (simp add: score_druggability_def Let_def)

lemma table_get_nonneg:
  "list_all (\<lambda>(k, s). 0 \<le> s) t \<Longrightarrow> 0 \<le> dflt \<Longrightarrow> 0 \<le> table_get t v dflt"
  by (induction t v dflt rule: table_get.induct) auto

lemma score_drug_likeness_nonneg:
  "list_all (\<lambda>(k, s). 0 \<le> s) (score_by_violations c) \<Longrightarrow> score_drug_likeness d c = Inr s
     \<Longrightarrow> 0 \<le> s"
  by (auto simp: score_drug_likeness_def Let_def table_get_nonneg split: sum.splits)

lemma score_off_target_nonneg:
  "0 \<le> low_target_bonus c \<Longrightarrow> score_off_target d c = Inr s \<Longrightarrow> 0 \<le> s"
  by (auto simp: score_off_target_def Let_def split: if_splits)

lemma module_step_floored:
  assumes "module_step m outs th fr = Inr (s, fr')"
    and "m = ''docking'' \<or> m = ''adme_pk'' \<or> m = ''toxicity''"
  shows "0 \<le> s"
proof -
  consider "m = ''docking''" | "m = ''adme_pk''" | "m = ''toxicity''" using assms(2) by blast
  then show ?thesis
  proof cases
    case 1
    with assms(1) show ?thesis
      by (auto simp: module_step_def call_rule_def score_docking_nonneg
               split: sum.splits option.splits)
  next
    case 2
    with assms(1) show ?thesis
      by (auto simp: module_step_def call_rule_def
               split: sum.splits option.splits dest: score_adme_pk_nonneg)
  next
    case 3
    with assms(1) show ?thesis
      using score_toxicity_nonneg
      by (auto simp: module_step_def call_toxicity_def
               split: sum.splits option.splits prod.splits if_splits)
         (metis fst_conv)+
  qed
qed

lemma call_rule_nonneg:
  assumes "call_rule m outs th = Inr s" and "nonneg_bonuses th"
  shows "0 \<le> s"
proof -
  have dr: "0 \<le> volume_hydrophobicity_bonus c" if "th_druggability th = Some c" for c
    using assms(2) that by (simp add: nonneg_bonuses_def)
  have dl: "list_all (\<lambda>(k, s). 0 \<le> s) (score_by_violations c)" if "th_drug_likeness th = Some c" for c
    using assms(2) that by (simp add: nonneg_bonuses_def)
  have ot: "0 \<le> low_target_bonus c" if "th_off_target th = Some c" for c
    using assms(2) that by (simp add: nonneg_bonuses_def)
  from assms(1) show ?thesis
    by (auto simp: call_rule_def score_docking_nonneg
             split: if_splits option.splits
             dest: score_adme_pk_nonneg score_druggability_nonneg [OF dr]
                   score_drug_likeness_nonneg [OF dl] score_off_target_nonneg [OF ot])
qed

lemma module_step_nonneg:
  assumes "module_step m outs th fr = Inr (s, fr')" and "nonneg_bonuses th"
  shows "0 \<le> s"
proof (cases "m = ''toxicity''")
  case True
  with assms(1) show ?thesis by (auto intro: module_step_floored)
next
  case False
  with assms(1) obtain "call_rule m outs th = Inr s"
    by (auto simp: module_step_def split: sum.splits)
  then show ?thesis using assms(2) by (rule call_rule_nonneg)
qed

lemma score_loop_entries:
  assumes "score_loop ms outs th (bd, fr, tot) = Inr (bd', fr', tot')" and "(m, v) \<in> set bd'"
  shows "(m, v) \<in> set bd \<or> (m \<in> set ms \<and> (\<exists>f f'. module_step m outs th f = Inr (v, f')))"
  using assms
proof (induction ms arbitrary: bd fr tot)
  case Nil
  then show ?case by simp
next
  case (Cons k ms)
  from Cons.prems(1) obtain s fr1 where
    step: "module_step k outs th fr = Inr (s, fr1)" and
    rest: "score_loop ms outs th (AList.update k s bd, fr1, tot + s) = Inr (bd', fr', tot')"
    by (auto split: sum.splits)
  from Cons.IH [OF rest Cons.prems(2)]
  consider "(m, v) \<in> set (AList.update k s bd)"
    | "m \<in> set ms \<and> (\<exists>f f'. module_step m outs th f = Inr (v, f'))" by blast
  then show ?case
  proof cases
    case 1
    have "set (AList.update k s bd) \<subseteq> insert (k, s) (set bd)"
      by (induction bd) auto
    with 1 have "(m, v) = (k, s) \<or> (m, v) \<in> set bd" by auto
    with step show ?thesis by auto
  next
    case 2
    then show ?thesis by auto
  qed
qed

text \<open>
  C3, as the code has it. Whenever \<^verbatim>\<open>aggregate_scores\<close> returns, the scores of
  \<^verbatim>\<open>docking\<close>, \<^verbatim>\<open>adme_pk\<close> and \<^verbatim>\<open>toxicity\<close> in \<^verbatim>\<open>score_breakdown\<close> are at least 0, as these
  three rules return \<^verbatim>\<open>max(score, 0)\<close>. The rules of \<^verbatim>\<open>druggability\<close>, \<^verbatim>\<open>drug_likeness\<close>
  and \<^verbatim>\<open>off_target\<close> return what they have added, with no floor; every score of the
  breakdown is at least 0 when the configured \<^verbatim>\<open>volume_hydrophobicity_bonus\<close> and
  \<^verbatim>\<open>low_target_bonus\<close> and the scores of \<^verbatim>\<open>score_by_violations\<close> are at least 0.
\<close>

theorem breakdown_scores_nonneg:
  assumes "aggregate_scores self module_outputs = Inr res"
    and "config_thresholds (config self) = Inr (YMap th)"
  shows "(\<forall>(m, v) \<in> set (score_breakdown res).
            m = ''docking'' \<or> m = ''adme_pk'' \<or> m = ''toxicity'' \<longrightarrow> 0 \<le> v)
       \<and> (nonneg_bonuses th \<longrightarrow> (\<forall>(m, v) \<in> set (score_breakdown res). 0 \<le> v))"
proof -
  from assms obtain outs bd fr tot where
    loop: "score_loop scoring_functions outs th ([], [], 0) = Inr (bd, fr, tot)" and
    bd: "score_breakdown res = bd"
    by (auto elim!: aggregate_scores_InrD)
  have entry: "\<exists>f f'. module_step m outs th f = Inr (v, f')" if "(m, v) \<in> set bd" for m v
    using score_loop_entries [OF loop that] by simp
  have "0 \<le> v"
    if "(m, v) \<in> set bd" "m = ''docking'' \<or> m = ''adme_pk'' \<or> m = ''toxicity''" for m v
    using entry [OF that(1)] that(2) by (auto intro: module_step_floored)
  moreover have "0 \<le> v" if "(m, v) \<in> set bd" "nonneg_bonuses th" for m v
    using entry [OF that(1)] that(2) by (auto intro: module_step_nonneg)
  ultimately show ?thesis unfolding bd by blast
qed
text \<open>
  C4, as the code has it. For every toxicity record and configuration, with the flagged
  count read with default 0 and the penalised models being the entries of
  \<^verbatim>\<open>high_risk_models\<close> found in \<^verbatim>\<open>override_models\<close>: the base score is 20 for a count of
  0 and 10 for a count of 1, both without a reason of their own, whatever
  \<^verbatim>\<open>max_flags_allowed\<close> is; for any other count the base score is 0, with the reason
  \<^verbatim>\<open>>{max} toxicity models flagged\<close> when the count exceeds \<^verbatim>\<open>max_flags_allowed\<close> and no
  reason otherwise, as for a count from 2 to the maximum. Ten points are taken off for
  each penalised model and the score is floored at 0; when a model is penalised the reason
  lists the penalised models, after the base reason and \<^verbatim>\<open>; \<close> when there is one.
\<close>

theorem score_toxicity_cases:
  "(flagged d = Fin 0 \<longrightarrow>
      score_toxicity d c =
        (max (20 - 10 * int (length (penalised d c))) 0,
         if penalised d c = [] then None else Some (penalty_reason d c)))
   \<and> (flagged d = Fin 1 \<longrightarrow>
      score_toxicity d c =
        (max (10 - 10 * int (length (penalised d c))) 0,
         if penalised d c = [] then None else Some (penalty_reason d c)))
   \<and> (flagged d \<noteq> Fin 0 \<and> flagged d \<noteq> Fin 1
        \<and> num_lt (Fin (of_int (max_flags_allowed c))) (flagged d) \<longrightarrow>
      score_toxicity d c =
        (0, if penalised d c = [] then Some (flags_reason c)
            else Some (flags_reason c @ ''; '' @ penalty_reason d c)))
   \<and> (flagged d \<noteq> Fin 0 \<and> flagged d \<noteq> Fin 1
        \<and> \<not> num_lt (Fin (of_int (max_flags_allowed c))) (flagged d) \<longrightarrow>
      score_toxicity d c =
        (0, if penalised d c = [] then None else Some (penalty_reason d c)))
   \<and> (num_le (Fin 2) (flagged d) \<and> num_le (flagged d) (Fin (of_int (max_flags_allowed c))) \<longrightarrow>
      score_toxicity d c =
        (0, if penalised d c = [] then None else Some (penalty_reason d c)))
   \<and> 0 \<le> fst (score_toxicity d c)"
proof -
  have ne: "flags_reason c \<noteq> []" by (simp add: flags_reason_def)
  have two: "flagged d \<noteq> Fin 0 \<and> flagged d \<noteq> Fin 1" if "num_le (Fin 2) (flagged d)"
    using that by (cases "flagged d") (auto simp: num_le_def)
  have c0: "flagged d = Fin 0 \<longrightarrow>
      score_toxicity d c =
        (max (20 - 10 * int (length (penalised d c))) 0,
         if penalised d c = [] then None else Some (penalty_reason d c))"
    by (simp add: score_toxicity_def flagged_def penalised_def penalty_reason_def Let_def)
  have c1: "flagged d = Fin 1 \<longrightarrow>
      score_toxicity d c =
        (max (10 - 10 * int (length (penalised d c))) 0,
         if penalised d c = [] then None else Some (penalty_reason d c))"
    by (simp add: score_toxicity_def flagged_def penalised_def penalty_reason_def Let_def)
  have c2: "flagged d \<noteq> Fin 0 \<and> flagged d \<noteq> Fin 1
        \<and> num_lt (Fin (of_int (max_flags_allowed c))) (flagged d) \<longrightarrow>
      score_toxicity d c =
        (0, if penalised d c = [] then Some (flags_reason c)
            else Some (flags_reason c @ ''; '' @ penalty_reason d c))"
    using ne
    by (simp add: score_toxicity_def flagged_def penalised_def penalty_reason_def
                  flags_reason_def Let_def)
  have c3: "flagged d \<noteq> Fin 0 \<and> flagged d \<noteq> Fin 1
        \<and> \<not> num_lt (Fin (of_int (max_flags_allowed c))) (flagged d) \<longrightarrow>
      score_toxicity d c =
        (0, if penalised d c = [] then None else Some (penalty_reason d c))"
    by (simp add: score_toxicity_def flagged_def penalised_def penalty_reason_def Let_def)
  have c4: "num_le (Fin 2) (flagged d) \<and> num_le (flagged d) (Fin (of_int (max_flags_allowed c))) \<longrightarrow>
      score_toxicity d c =
        (0, if penalised d c = [] then None else Some (penalty_reason d c))"
    using c3 two by (auto simp: num_le_def)
  have c5: "0 \<le> fst (score_toxicity d c)"
    by (simp add: score_toxicity_def Let_def split: prod.splits)
  from c0 c1 c2 c3 c4 c5 show ?thesis by blast
qed

theorem score_toxicity_cases_witness:
  "flagged four_flags \<noteq> Fin 0 \<and> flagged four_flags \<noteq> Fin 1
   \<and> num_lt (Fin (of_int (max_flags_allowed ex_tox_cfg))) (flagged four_flags)
   \<and> penalised four_flags ex_tox_cfg = [''DILIrank'', ''ProTox-II'']
   \<and> score_toxicity four_flags ex_tox_cfg =
       (0, Some ''>3 toxicity models flagged; High-risk models flagged: DILIrank, ProTox-II'')"
proof -
  have h: "flagged four_flags \<noteq> Fin 0 \<and> flagged four_flags \<noteq> Fin 1
           \<and> num_lt (Fin (of_int (max_flags_allowed ex_tox_cfg))) (flagged four_flags)"
    by (simp add: flagged_def four_flags_def ex_tox_cfg_def get_default_def)
  have p: "penalised four_flags ex_tox_cfg = [''DILIrank'', ''ProTox-II'']"
    by (simp add: penalised_def four_flags_def ex_tox_cfg_def get_default_def)
  have r: "flags_reason ex_tox_cfg @ ''; '' @ penalty_reason four_flags ex_tox_cfg =
             ''>3 toxicity models flagged; High-risk models flagged: DILIrank, ProTox-II''"
    by code_simp
  from score_toxicity_cases [of four_flags ex_tox_cfg] h p r show ?thesis by simp
qed

text \<open>
  C4 as stated fails where the count is 1 and no flag is allowed: the count exceeds the
  maximum, and the rule returns 10 and no reason.
\<close>

theorem one_flag_above_max_counterexample:
  "flagged one_flag = Fin 1
   \<and> num_lt (Fin (of_int (max_flags_allowed strict_tox_cfg))) (flagged one_flag)
   \<and> score_toxicity one_flag strict_tox_cfg = (10, None)"
  by code_simp

text \<open>
  C3 as stated fails for the off-target rule under a configuration that passes validation
  and holds a negative \<^verbatim>\<open>low_target_bonus\<close>.
\<close>

theorem negative_bonus_counterexample:
  "init malus_fs ''score_config.yaml'' = Inr malus_self
   \<and> aggregate_scores malus_self (Dict unselective) = Inr malus_res
   \<and> (''off_target'', - 3) \<in> set (score_breakdown malus_res)"
  by code_simp

theorem breakdown_scores_nonneg_witness:
  "aggregate_scores ex_self (Dict near_perfect) = Inr near_perfect_res
   \<and> config_thresholds (config ex_self) = Inr (YMap ex_thresholds)
   \<and> nonneg_bonuses ex_thresholds
   \<and> list_all (\<lambda>(m, v). 0 \<le> v) (score_breakdown near_perfect_res)"
proof -
  have t: "config_thresholds (config ex_self) = Inr (YMap ex_thresholds)"
    by (simp add: ex_self_def ex_config_def)
  have n: "nonneg_bonuses ex_thresholds" by code_simp
  from breakdown_scores_nonneg [OF near_perfect_result t] n near_perfect_result t
  show ?thesis by (simp add: list_all_iff)
qed

section \<open>Drug-likeness\<close>

lemma table_get_map_of:
  "table_get t (Fin (of_int k)) dflt = (case map_of t k of None \<Rightarrow> dflt | Some s \<Rightarrow> s)"
  by (induction t) auto

lemma max_key_Max: "ks \<noteq> [] \<Longrightarrow> max_key ks = Inr (Max (set ks))"
proof (cases ks)
  case Nil
  assume "ks \<noteq> []"
  with Nil show ?thesis by simp
next
  case (Cons k rest)
  then show ?thesis using Max.set_eq_fold [of k rest] by simp
qed

text \<open>
  C7. For a table that is not empty and has largest key \<open>K\<close>, every violation count above
  \<open>K\<close>, the default \<^verbatim>\<open>float('inf')\<close> of an absent field included, scores as exactly \<open>K\<close>
  does, which is the table's score for \<open>K\<close>; a count that is an integer \<open>j\<close> of at most \<open>K\<close>
  scores as the table says for \<open>j\<close>, and 0 when the table has no such key.
\<close>

theorem drug_likeness_clamps_to_largest_key:
  assumes "score_by_violations cfg \<noteq> []"
    and "K = Max (fst ` set (score_by_violations cfg))"
  shows "(get_default (num_violations d) PInf = v \<and> num_lt (Fin (of_int K)) v
            \<and> num_violations d' = Some (Fin (of_int K))
          \<longrightarrow> score_drug_likeness d cfg = score_drug_likeness d' cfg
              \<and> (\<exists>s. map_of (score_by_violations cfg) K = Some s
                     \<and> score_drug_likeness d cfg = Inr s))
       \<and> (num_violations d'' = Some (Fin (of_int j)) \<and> j \<le> K
          \<longrightarrow> score_drug_likeness d'' cfg =
                Inr (case map_of (score_by_violations cfg) j of None \<Rightarrow> 0 | Some s \<Rightarrow> s))"
proof -
  let ?t = "score_by_violations cfg"
  from assms have mk: "max_key (map fst ?t) = Inr K"
    by (simp add: max_key_Max)
  from assms have "K \<in> fst ` set ?t"
    using Max_in [of "fst ` set ?t"] by simp
  then obtain s where s: "map_of ?t K = Some s"
    by (metis domD dom_map_of_conv_image_fst)
  have above: "score_drug_likeness d cfg = Inr s \<and> score_drug_likeness d' cfg = Inr s"
    if "get_default (num_violations d) PInf = v" "num_lt (Fin (of_int K)) v"
       "num_violations d' = Some (Fin (of_int K))"
    using that mk s
    by (simp add: score_drug_likeness_def Let_def py_min_def get_default_def table_get_map_of)
  have below: "score_drug_likeness d'' cfg =
                Inr (case map_of ?t j of None \<Rightarrow> 0 | Some s \<Rightarrow> s)"
    if "num_violations d'' = Some (Fin (of_int j))" "j \<le> K"
    using that mk
    by (simp add: score_drug_likeness_def Let_def py_min_def get_default_def table_get_map_of)
  from above below s show ?thesis by auto
qed

theorem drug_likeness_clamps_to_largest_key_witness:
  "score_by_violations table_to_5 \<noteq> []
   \<and> (5::int) = Max (fst ` set (score_by_violations table_to_5))
   \<and> num_lt (Fin (of_int 5)) (Fin 99)
   \<and> score_drug_likeness \<lparr>num_violations = Some (Fin 99)\<rparr> table_to_5 =
       score_drug_likeness \<lparr>num_violations = Some (Fin (of_int 5))\<rparr> table_to_5
   \<and> score_drug_likeness \<lparr>num_violations = Some (Fin 99)\<rparr> table_to_5 = Inr 1
   \<and> score_drug_likeness \<lparr>num_violations = Some (Fin (of_int 4))\<rparr> table_to_5 = Inr 0"
proof -
  have a: "score_by_violations table_to_5 \<noteq> []" by (simp add: table_to_5_def)
  have b: "(5::int) = Max (fst ` set (score_by_violations table_to_5))"
    by (simp add: table_to_5_def)
  have m: "map_of (score_by_violations table_to_5) 5 = Some 1"
          "map_of (score_by_violations table_to_5) 4 = None"
    by (simp_all add: table_to_5_def)
  have lt: "num_lt (Fin (of_int 5)) (Fin 99)" by simp
  have h: "get_default (num_violations \<lparr>num_violations = Some (Fin 99)\<rparr>) PInf = Fin 99"
    by (simp add: get_default_def)
  have rest:
    "score_drug_likeness \<lparr>num_violations = Some (Fin 99)\<rparr> table_to_5 =
       score_drug_likeness \<lparr>num_violations = Some (Fin (of_int 5))\<rparr> table_to_5
     \<and> score_drug_likeness \<lparr>num_violations = Some (Fin 99)\<rparr> table_to_5 = Inr 1
     \<and> score_drug_likeness \<lparr>num_violations = Some (Fin (of_int 4))\<rparr> table_to_5 = Inr 0"
    using drug_likeness_clamps_to_largest_key [OF a b,
         of "\<lparr>num_violations = Some (Fin 99)\<rparr>" "Fin 99"
            "\<lparr>num_violations = Some (Fin (of_int 5))\<rparr>"
            "\<lparr>num_violations = Some (Fin (of_int 4))\<rparr>" 4] h lt m
    by auto
  from a b lt rest show ?thesis by blast
qed

section \<open>Input validation\<close>

lemma call_rule_error: "call_rule m outs th = Inl e \<Longrightarrow> \<not> is_scoring_error (Inl e :: py_error + 'a)"
  by (auto simp: call_rule_def score_adme_pk_def logP_in_range_def score_drug_likeness_def
                 score_off_target_def Let_def
           split: if_splits option.splits sum.splits list.splits
           elim!: max_key.elims)

lemma module_step_error:
  "module_step m outs th fr = Inl e \<Longrightarrow> \<not> is_scoring_error (Inl e :: py_error + 'a)"
  by (auto simp: module_step_def call_toxicity_def
           split: if_splits option.splits sum.splits prod.splits dest: call_rule_error)

lemma score_loop_error:
  "score_loop ms outs th acc = Inl e \<Longrightarrow> \<not> is_scoring_error (Inl e :: py_error + 'a)"
proof (induction ms outs th acc rule: score_loop.induct)
  case (1 outs th acc)
  then show ?case by simp
next
  case (2 m rest outs th bd fr tot)
  show ?case
  proof (cases "module_step m outs th fr")
    case (Inl e')
    with "2.prems" have "e' = e" by simp
    with Inl show ?thesis by (auto dest: module_step_error)
  next
    case (Inr p)
    obtain s fr' where p: "p = (s, fr')" by (cases p)
    from "2.prems" Inr p
    have "score_loop rest outs th (AList.update m s bd, fr', tot + s) = Inl e"
      by simp
    with "2.IH" [OF Inr p [symmetric]] show ?thesis by simp
  qed
qed

lemma validate_input_error:
  "validate_input module_outputs = Inl e \<Longrightarrow> is_scoring_error (Inl e :: py_error + 'a)"
  by (auto simp: validate_input_def Let_def split: request.splits if_splits)

lemma validate_input_cases:
  "validate_input module_outputs =
     (case module_outputs of
        NotADict \<Rightarrow> Inl (ScoringError ''Input must be a dictionary'')
      | Dict b \<Rightarrow>
          if bundle_empty b then Inl (ScoringError ''Input dictionary cannot be empty'')
          else if \<exists>m \<in> set required_modules. \<not> bundle_has b m
          then Inl (ScoringError (''Missing required modules: ''
                      @ repr_list (filter (\<lambda>m. \<not> bundle_has b m) required_modules)))
          else Inr b)"
  by (auto simp: validate_input_def Let_def filter_empty_conv split: request.splits)

text \<open>
  C5. A call of \<^verbatim>\<open>aggregate_scores\<close> ends in a \<^verbatim>\<open>ScoringError\<close> exactly when the request
  is not a dict, is an empty dict, or lacks one of the six module keys. Without keys the
  one error lists every missing key, in the order of the required modules. The error is
  the one of \<^verbatim>\<open>_validate_input\<close>, whatever the aggregator holds: no rule has run.
\<close>

theorem input_error_exactly_when:
  "(is_scoring_error (aggregate_scores self module_outputs) \<longleftrightarrow>
      module_outputs = NotADict
      \<or> (\<exists>b. module_outputs = Dict b
              \<and> (bundle_empty b \<or> (\<exists>m \<in> set required_modules. \<not> bundle_has b m))))
   \<and> (module_outputs = NotADict \<longrightarrow>
        aggregate_scores self module_outputs = Inl (ScoringError ''Input must be a dictionary''))
   \<and> (module_outputs = Dict b \<and> bundle_empty b \<longrightarrow>
        aggregate_scores self module_outputs =
          Inl (ScoringError ''Input dictionary cannot be empty''))
   \<and> (module_outputs = Dict b \<and> \<not> bundle_empty b
        \<and> (\<exists>m \<in> set required_modules. \<not> bundle_has b m) \<longrightarrow>
        aggregate_scores self module_outputs =
          Inl (ScoringError (''Missing required modules: ''
                 @ repr_list (filter (\<lambda>m. \<not> bundle_has b m) required_modules))))
   \<and> (validate_input module_outputs = Inl e \<longrightarrow>
        (\<forall>self'. aggregate_scores self' module_outputs = Inl e))"
proof -
  have fail: "aggregate_scores s mo = Inl e'" if "validate_input mo = Inl e'" for s mo e'
    using that by (simp add: aggregate_scores_def)
  have pass: "\<not> is_scoring_error (aggregate_scores self module_outputs)"
    if v: "validate_input module_outputs = Inr outs" for outs
  proof (cases "config_thresholds (config self)")
    case (Inl e')
    then have "e' = KeyError ''thresholds'' \<or> e' = TypeError"
      by (cases "config self") (auto split: option.splits)
    with v Inl show ?thesis by (auto simp: aggregate_scores_def)
  next
    case lookup: (Inr thresholds_value)
    show ?thesis
    proof (cases "\<exists>th. thresholds_value = YMap th")
      case False
      with v lookup show ?thesis
        by (cases thresholds_value) (simp_all add: aggregate_scores_def)
    next
      case True
      then obtain th where th: "thresholds_value = YMap th" by blast
      show ?thesis
      proof (cases "score_loop scoring_functions outs th ([], [], 0)")
        case (Inl e')
        from score_loop_error [OF Inl]
        have "\<not> is_scoring_error (Inl e' :: py_error + result)" .
        with v lookup th Inl show ?thesis by (simp add: aggregate_scores_def)
      next
        case (Inr acc)
        with v lookup th show ?thesis
          by (simp add: aggregate_scores_def Let_def split: prod.splits)
      qed
    qed
  qed
  have a: "is_scoring_error (aggregate_scores self module_outputs) \<longleftrightarrow>
      module_outputs = NotADict
      \<or> (\<exists>b. module_outputs = Dict b
              \<and> (bundle_empty b \<or> (\<exists>m \<in> set required_modules. \<not> bundle_has b m)))"
  proof (cases "validate_input module_outputs")
    case (Inl e')
    from fail [OF Inl] validate_input_error [OF Inl]
    have "is_scoring_error (aggregate_scores self module_outputs)" by simp
    moreover from Inl have "module_outputs = NotADict
      \<or> (\<exists>b. module_outputs = Dict b
              \<and> (bundle_empty b \<or> (\<exists>m \<in> set required_modules. \<not> bundle_has b m)))"
      unfolding validate_input_cases by (cases module_outputs) (auto split: if_splits)
    ultimately show ?thesis by simp
  next
    case (Inr outs)
    from pass [OF Inr] have "\<not> is_scoring_error (aggregate_scores self module_outputs)" .
    moreover from Inr have "\<not> (module_outputs = NotADict
      \<or> (\<exists>b. module_outputs = Dict b
              \<and> (bundle_empty b \<or> (\<exists>m \<in> set required_modules. \<not> bundle_has b m))))"
      unfolding validate_input_cases by (cases module_outputs) (auto split: if_splits)
    ultimately show ?thesis by simp
  qed
  have b: "module_outputs = NotADict \<longrightarrow>
        aggregate_scores self module_outputs = Inl (ScoringError ''Input must be a dictionary'')"
    by (auto intro!: fail simp: validate_input_cases)
  have c: "module_outputs = Dict b \<and> bundle_empty b \<longrightarrow>
        aggregate_scores self module_outputs =
          Inl (ScoringError ''Input dictionary cannot be empty'')"
    by (auto intro!: fail simp: validate_input_cases)
  have d: "module_outputs = Dict b \<and> \<not> bundle_empty b
        \<and> (\<exists>m \<in> set required_modules. \<not> bundle_has b m) \<longrightarrow>
        aggregate_scores self module_outputs =
          Inl (ScoringError (''Missing required modules: ''
                 @ repr_list (filter (\<lambda>m. \<not> bundle_has b m) required_modules)))"
    by (auto intro!: fail simp: validate_input_cases)
  have e: "validate_input module_outputs = Inl e \<longrightarrow>
        (\<forall>self'. aggregate_scores self' module_outputs = Inl e)"
    using fail by blast
  from a b c d e show ?thesis by blast
qed

theorem input_error_exactly_when_witness:
  "\<not> bundle_empty two_missing
   \<and> \<not> bundle_has two_missing ''toxicity'' \<and> \<not> bundle_has two_missing ''off_target''
   \<and> ''toxicity'' \<in> set required_modules
   \<and> is_scoring_error (aggregate_scores ex_self (Dict two_missing))
   \<and> aggregate_scores ex_self (Dict two_missing) =
       Inl (ScoringError ''Missing required modules: ['toxicity', 'off_target']'')"
proof -
  have h: "\<not> bundle_empty two_missing" "\<not> bundle_has two_missing ''toxicity''"
          "\<not> bundle_has two_missing ''off_target''" "''toxicity'' \<in> set required_modules"
    by code_simp+
  have r: "''Missing required modules: ''
             @ repr_list (filter (\<lambda>m. \<not> bundle_has two_missing m) required_modules) =
           ''Missing required modules: ['toxicity', 'off_target']''"
    by code_simp
  from input_error_exactly_when [of ex_self "Dict two_missing" two_missing] h r
  show ?thesis by auto
qed
section \<open>Construction\<close>

lemma is_scoring_error_Inl: "is_scoring_error (Inl e) \<longleftrightarrow> (\<exists>m. e = ScoringError m)"
  by (cases e) simp_all

lemma check_modules_first:
  assumes "weights c = Some (YMap w)" and "thresholds c = Some (YMap th)"
    and "\<forall>x \<in> set pre. \<not> lacks_weight c x \<and> \<not> lacks_thresholds c x"
    and "lacks_weight c m \<or> lacks_thresholds c m"
  shows "check_modules (YMap c) (pre @ m # post) =
           Inl (ScoringError (if lacks_weight c m then ''Missing weight for module: '' @ m
                              else ''Missing thresholds for module: '' @ m))"
  using assms
  by (induction pre) (auto simp: lacks_weight_def lacks_thresholds_def)

lemma check_modules_pass:
  assumes "weights c = Some (YMap w)" and "thresholds c = Some (YMap th)"
    and "\<forall>x \<in> set ms. \<not> lacks_weight c x \<and> \<not> lacks_thresholds c x"
  shows "check_modules (YMap c) ms = Inr ()"
  using assms
  by (induction ms) (auto simp: lacks_weight_def lacks_thresholds_def)

lemma check_modules_scoring_error:
  assumes "weights c = Some (YMap w)" and "thresholds c = Some (YMap th)"
  shows "is_scoring_error (check_modules (YMap c) ms)
           \<longleftrightarrow> (\<exists>m \<in> set ms. lacks_weight c m \<or> lacks_thresholds c m)"
  using assms
  by (induction ms) (auto simp: lacks_weight_def lacks_thresholds_def)

lemma load_config_cases:
  "load_config fs path =
     (case fs path of
        Absent \<Rightarrow> Inl (ScoringError (''Error loading configuration: Configuration file not found: '' @ path))
      | Unreadable e \<Rightarrow> Inl (ScoringError (''Error loading configuration: '' @ e))
      | Malformed e \<Rightarrow> Inl (ScoringError (''Invalid YAML format: '' @ e))
      | Loads doc \<Rightarrow>
          if \<not> doc_truthy doc
          then Inl (ScoringError ''Error loading configuration: Configuration file is empty or invalid'')
          else Inr doc)"
  by (simp add: load_config_def load_config_try_def split: file_state.splits)

lemma validate_config_cases:
  "validate_config \<lparr>config = YMap c\<rparr> =
     (if weights c = None then Inl (ScoringError ''Missing required config section: weights'')
      else if thresholds c = None
      then Inl (ScoringError ''Missing required config section: thresholds'')
      else check_modules (YMap c) required_modules)"
  by (simp add: validate_config_def config_has_def)

lemma init_loaded:
  assumes "fs path = Loads doc" and "doc_truthy doc"
  shows "init fs path =
           (case validate_config \<lparr>config = doc\<rparr> of
              Inl e \<Rightarrow> Inl e
            | Inr u \<Rightarrow> Inr \<lparr>config = doc\<rparr>)"
  using assms by (simp add: init_def load_config_cases)

lemma init_mapping_document:
  assumes "fs path = Loads (YMap c)" and "mapping_document (fs path)"
  shows "is_scoring_error (init fs path) \<longleftrightarrow> spec_config_failure (fs path)"
proof (cases "config_empty c \<or> weights c = None \<or> thresholds c = None")
  case True
  with assms(1) show ?thesis
    by (auto simp: init_def load_config_cases spec_config_failure_def validate_config_cases)
next
  case False
  with assms obtain w th where wt: "weights c = Some (YMap w)" "thresholds c = Some (YMap th)"
    and nonempty: "\<not> config_empty c"
    by (auto simp: mapping_document_def mapping_section_def split: option.splits yaml_value.splits)
  from init_loaded [of fs path "YMap c"] assms(1) nonempty wt
  have "init fs path =
          (case check_modules (YMap c) required_modules of
             Inl e \<Rightarrow> Inl e | Inr u \<Rightarrow> Inr \<lparr>config = YMap c\<rparr>)"
    by (simp add: validate_config_cases)
  then have "is_scoring_error (init fs path)
               \<longleftrightarrow> is_scoring_error (check_modules (YMap c) required_modules)"
    by (cases "check_modules (YMap c) required_modules") (simp_all add: is_scoring_error_Inl)
  with check_modules_scoring_error [OF wt, of required_modules] assms(1) wt nonempty
  show ?thesis by (simp add: spec_config_failure_def list_ex_iff)
qed

text \<open>
  C6, as the code has it. For a source whose document, when it is not empty or null, is a
  mapping whose \<^verbatim>\<open>weights\<close> and \<^verbatim>\<open>thresholds\<close>, where present, are mappings,
  construction ends in a \<^verbatim>\<open>ScoringError\<close> exactly when the source does not exist, exists
  and cannot be opened or read, is syntactically invalid, parses to an empty or null value,
  lacks the section \<^verbatim>\<open>weights\<close> or \<^verbatim>\<open>thresholds\<close>, or lacks one of the six modules in
  \<^verbatim>\<open>weights\<close> or in \<^verbatim>\<open>thresholds\<close>. The checks run in the order existence, opening,
  parsing, emptiness, \<^verbatim>\<open>weights\<close>, \<^verbatim>\<open>thresholds\<close>, then for each module in turn its weight
  and its thresholds, and the error names the first requirement that is not met. When
  construction fails no aggregator exists, so no request is served.
\<close>

theorem config_error_exactly_when:
  "(mapping_document (fs path) \<longrightarrow>
      (is_scoring_error (init fs path) \<longleftrightarrow>
         spec_config_failure (fs path) \<or> (\<exists>e. fs path = Unreadable e)))
   \<and> (init fs path = Inr self \<longrightarrow> fs path = Loads (config self))
   \<and> (fs path = Absent \<longrightarrow>
        init fs path =
          Inl (ScoringError (''Error loading configuration: Configuration file not found: '' @ path)))
   \<and> (fs path = Unreadable e \<longrightarrow>
        init fs path = Inl (ScoringError (''Error loading configuration: '' @ e)))
   \<and> (fs path = Malformed e \<longrightarrow>
        init fs path = Inl (ScoringError (''Invalid YAML format: '' @ e)))
   \<and> (fs path = Loads doc \<and> \<not> doc_truthy doc \<longrightarrow>
        init fs path =
          Inl (ScoringError ''Error loading configuration: Configuration file is empty or invalid''))
   \<and> (fs path = Loads (YMap c) \<and> \<not> config_empty c \<and> weights c = None \<longrightarrow>
        init fs path = Inl (ScoringError ''Missing required config section: weights''))
   \<and> (fs path = Loads (YMap c) \<and> weights c \<noteq> None \<and> thresholds c = None \<longrightarrow>
        init fs path = Inl (ScoringError ''Missing required config section: thresholds''))
   \<and> (fs path = Loads (YMap c) \<and> weights c = Some (YMap w) \<and> thresholds c = Some (YMap th)
        \<and> required_modules = pre @ m # post
        \<and> (\<forall>x \<in> set pre. \<not> lacks_weight c x \<and> \<not> lacks_thresholds c x)
        \<and> (lacks_weight c m \<or> lacks_thresholds c m) \<longrightarrow>
        init fs path =
          Inl (ScoringError (if lacks_weight c m then ''Missing weight for module: '' @ m
                             else ''Missing thresholds for module: '' @ m)))"
proof -
  have ne: "\<not> config_empty c'" if "weights c' \<noteq> None" for c'
    using that by (auto simp: config_empty_def)
  have a: "mapping_document (fs path) \<longrightarrow>
      (is_scoring_error (init fs path) \<longleftrightarrow>
         spec_config_failure (fs path) \<or> (\<exists>e. fs path = Unreadable e))"
  proof
    assume md: "mapping_document (fs path)"
    show "is_scoring_error (init fs path) \<longleftrightarrow>
            spec_config_failure (fs path) \<or> (\<exists>e. fs path = Unreadable e)"
    proof (cases "fs path")
      case (Loads d)
      show ?thesis
      proof (cases "\<exists>c'. d = YMap c'")
        case True
        then obtain c' where "d = YMap c'" by blast
        with Loads init_mapping_document [of fs path c'] md show ?thesis by simp
      next
        case False
        with md Loads have falsy: "\<not> doc_truthy d"
          by (cases d) (simp_all add: mapping_document_def)
        with Loads show ?thesis
          by (simp add: init_def load_config_cases spec_config_failure_def)
      qed
    qed (simp_all add: init_def load_config_cases spec_config_failure_def)
  qed
  have b: "init fs path = Inr self \<longrightarrow> fs path = Loads (config self)"
    by (auto simp: init_def load_config_cases
             split: file_state.splits if_splits sum.splits)
  have d: "fs path = Absent \<longrightarrow>
        init fs path =
          Inl (ScoringError (''Error loading configuration: Configuration file not found: '' @ path))"
    by (simp add: init_def load_config_cases)
  have e: "fs path = Unreadable e \<longrightarrow>
        init fs path = Inl (ScoringError (''Error loading configuration: '' @ e))"
    by (simp add: init_def load_config_cases)
  have f: "fs path = Malformed e \<longrightarrow>
        init fs path = Inl (ScoringError (''Invalid YAML format: '' @ e))"
    by (simp add: init_def load_config_cases)
  have g: "fs path = Loads doc \<and> \<not> doc_truthy doc \<longrightarrow>
        init fs path =
          Inl (ScoringError ''Error loading configuration: Configuration file is empty or invalid'')"
    by (auto simp: init_def load_config_cases)
  have h: "fs path = Loads (YMap c) \<and> \<not> config_empty c \<and> weights c = None \<longrightarrow>
        init fs path = Inl (ScoringError ''Missing required config section: weights'')"
    by (auto simp: init_loaded validate_config_cases)
  have i: "fs path = Loads (YMap c) \<and> weights c \<noteq> None \<and> thresholds c = None \<longrightarrow>
        init fs path = Inl (ScoringError ''Missing required config section: thresholds'')"
    using ne [of c] by (auto simp: init_loaded validate_config_cases)
  have j: "fs path = Loads (YMap c) \<and> weights c = Some (YMap w) \<and> thresholds c = Some (YMap th)
        \<and> required_modules = pre @ m # post
        \<and> (\<forall>x \<in> set pre. \<not> lacks_weight c x \<and> \<not> lacks_thresholds c x)
        \<and> (lacks_weight c m \<or> lacks_thresholds c m) \<longrightarrow>
        init fs path =
          Inl (ScoringError (if lacks_weight c m then ''Missing weight for module: '' @ m
                             else ''Missing thresholds for module: '' @ m))"
  proof (intro impI, elim conjE)
    assume l: "fs path = Loads (YMap c)"
      and wt: "weights c = Some (YMap w)" "thresholds c = Some (YMap th)"
      and r: "required_modules = pre @ m # post"
      and p: "\<forall>x \<in> set pre. \<not> lacks_weight c x \<and> \<not> lacks_thresholds c x"
      and q: "lacks_weight c m \<or> lacks_thresholds c m"
    from wt(1) have t: "doc_truthy (YMap c)" using ne [of c] by simp
    from check_modules_first [OF wt p q, of post] r
    have "check_modules (YMap c) required_modules =
           Inl (ScoringError (if lacks_weight c m then ''Missing weight for module: '' @ m
                              else ''Missing thresholds for module: '' @ m))"
      by simp
    with init_loaded [of fs path "YMap c", OF l t] wt
    show "init fs path =
          Inl (ScoringError (if lacks_weight c m then ''Missing weight for module: '' @ m
                             else ''Missing thresholds for module: '' @ m))"
      by (simp add: validate_config_cases)
  qed
  from a b d e f g h i j show ?thesis by blast
qed

theorem config_error_exactly_when_witness:
  "gappy_fs ''score_config.yaml'' = Loads (YMap gappy_config)
   \<and> mapping_document (gappy_fs ''score_config.yaml'')
   \<and> required_modules =
       [''docking''] @ ''adme_pk'' # [''toxicity'', ''druggability'', ''drug_likeness'', ''off_target'']
   \<and> \<not> lacks_weight gappy_config ''docking'' \<and> \<not> lacks_thresholds gappy_config ''docking''
   \<and> \<not> lacks_weight gappy_config ''adme_pk'' \<and> lacks_thresholds gappy_config ''adme_pk''
   \<and> lacks_weight gappy_config ''toxicity''
   \<and> spec_config_failure (gappy_fs ''score_config.yaml'')
   \<and> is_scoring_error (init gappy_fs ''score_config.yaml'')
   \<and> init gappy_fs ''score_config.yaml'' =
       Inl (ScoringError ''Missing thresholds for module: adme_pk'')"
proof -
  have l: "gappy_fs ''score_config.yaml'' = Loads (YMap gappy_config)"
    by (simp add: gappy_fs_def)
  have md: "mapping_document (gappy_fs ''score_config.yaml'')" by code_simp
  obtain w th where s: "weights gappy_config = Some (YMap w)"
      "thresholds gappy_config = Some (YMap th)"
    by (simp add: gappy_config_def)
  have r: "required_modules =
       [''docking''] @ ''adme_pk'' # [''toxicity'', ''druggability'', ''drug_likeness'', ''off_target'']"
    by (simp add: required_modules_def)
  have k: "\<not> lacks_weight gappy_config ''docking''" "\<not> lacks_thresholds gappy_config ''docking''"
          "\<not> lacks_weight gappy_config ''adme_pk''" "lacks_thresholds gappy_config ''adme_pk''"
          "lacks_weight gappy_config ''toxicity''"
    by code_simp+
  have f: "spec_config_failure (gappy_fs ''score_config.yaml'')" by code_simp
  have p: "\<forall>x \<in> set [''docking''].
             \<not> lacks_weight gappy_config x \<and> \<not> lacks_thresholds gappy_config x"
    using k by simp
  from config_error_exactly_when [of gappy_fs "''score_config.yaml''" _ _ _ gappy_config w th
         "[''docking'']" "''adme_pk''"
         "[''toxicity'', ''druggability'', ''drug_likeness'', ''off_target'']"]
       l md s r k p f
  show ?thesis by auto
qed

text \<open>
  C6 as stated fails in both directions. A source that exists and cannot be opened ends
  construction in a \<^verbatim>\<open>ScoringError\<close>, and is none of missing, syntactically invalid,
  empty or incomplete. The document \<^verbatim>\<open>42\<close> has no sections, and construction ends in a
  \<^verbatim>\<open>TypeError\<close>.
\<close>

theorem config_source_counterexample:
  "dir_fs ''conf'' = Unreadable dir_error
   \<and> init dir_fs ''conf'' = Inl (ScoringError (''Error loading configuration: '' @ dir_error))
   \<and> \<not> spec_config_failure (dir_fs ''conf'')
   \<and> number_fs ''conf'' = Loads (YScalar True)
   \<and> spec_config_failure (number_fs ''conf'')
   \<and> init number_fs ''conf'' = Inl TypeError"
  by code_simp

lemma ex_init: "init ex_fs ''score_config.yaml'' = Inr ex_self"
  by code_simp

section \<open>The store\<close>

lemma module_step_st_sim:
  assumes "fr < length (list_objs st)"
  shows "(\<exists>e. module_step m outs th (list_objs st ! fr) = Inl e
              \<and> module_step_st m outs th fr st = (Inl e, st))
       \<or> (\<exists>s l st1. module_step m outs th (list_objs st ! fr) = Inr (s, l)
              \<and> module_step_st m outs th fr st = (Inr s, st1)
              \<and> dict_objs st1 = dict_objs st
              \<and> list_objs st1 = (list_objs st)[fr := l])"
  using assms
  by (auto simp: module_step_def module_step_st_def list_append_def logger_call_def
           split: sum.splits prod.splits)

lemma score_loop_st_sim:
  assumes "bd < length (dict_objs st)" and "fr < length (list_objs st)"
  shows "\<exists>d l. dict_objs (snd (score_loop_st ms outs th bd fr tot st)) = (dict_objs st)[bd := d]
             \<and> list_objs (snd (score_loop_st ms outs th bd fr tot st)) = (list_objs st)[fr := l]
             \<and> (case score_loop ms outs th (dict_objs st ! bd, list_objs st ! fr, tot) of
                   Inl e \<Rightarrow> fst (score_loop_st ms outs th bd fr tot st) = Inl e
                 | Inr (d', l', t) \<Rightarrow>
                     fst (score_loop_st ms outs th bd fr tot st) = Inr t \<and> d' = d \<and> l' = l)"
  using assms
proof (induction ms arbitrary: tot st)
  case Nil
  show ?case
    by (intro exI [of _ "dict_objs st ! bd"] exI [of _ "list_objs st ! fr"]) simp
next
  case (Cons m ms)
  from module_step_st_sim [OF Cons.prems(2), of m outs th]
  consider (err) e where "module_step m outs th (list_objs st ! fr) = Inl e"
      "module_step_st m outs th fr st = (Inl e, st)"
    | (ok) s l st1 where "module_step m outs th (list_objs st ! fr) = Inr (s, l)"
      "module_step_st m outs th fr st = (Inr s, st1)"
      "dict_objs st1 = dict_objs st" "list_objs st1 = (list_objs st)[fr := l]"
    by blast
  then show ?case
  proof cases
    case err
    then show ?thesis
      by (intro exI [of _ "dict_objs st ! bd"] exI [of _ "list_objs st ! fr"]) simp
  next
    case ok
    let ?st2 = "dict_set bd m s st1"
    have d2: "dict_objs ?st2 = (dict_objs st)[bd := AList.update m s (dict_objs st ! bd)]"
      and l2: "list_objs ?st2 = (list_objs st)[fr := l]"
      using ok(3,4) by (simp_all add: dict_set_def)
    from d2 l2 Cons.prems have in2: "bd < length (dict_objs ?st2)" "fr < length (list_objs ?st2)"
      by simp_all
    from d2 l2 Cons.prems
    have at2: "dict_objs ?st2 ! bd = AList.update m s (dict_objs st ! bd)"
              "list_objs ?st2 ! fr = l"
      by simp_all
    from Cons.IH [OF in2, of "tot + s"] obtain d' l' where
      ih: "dict_objs (snd (score_loop_st ms outs th bd fr (tot + s) ?st2)) = (dict_objs ?st2)[bd := d']"
          "list_objs (snd (score_loop_st ms outs th bd fr (tot + s) ?st2)) = (list_objs ?st2)[fr := l']"
          "case score_loop ms outs th (dict_objs ?st2 ! bd, list_objs ?st2 ! fr, tot + s) of
             Inl e \<Rightarrow> fst (score_loop_st ms outs th bd fr (tot + s) ?st2) = Inl e
           | Inr (d'', l'', t) \<Rightarrow>
               fst (score_loop_st ms outs th bd fr (tot + s) ?st2) = Inr t \<and> d'' = d' \<and> l'' = l'"
      by blast
    have unfold_st: "score_loop_st (m # ms) outs th bd fr tot st =
                       score_loop_st ms outs th bd fr (tot + s) ?st2"
      using ok(2) by simp
    have unfold_pure: "score_loop (m # ms) outs th (dict_objs st ! bd, list_objs st ! fr, tot) =
                         score_loop ms outs th (dict_objs ?st2 ! bd, list_objs ?st2 ! fr, tot + s)"
      using ok(1) at2 by simp
    from ih d2 l2 show ?thesis
      unfolding unfold_st unfold_pure by (intro exI [of _ d'] exI [of _ l']) simp
  qed
qed

lemma aggregate_scores_st_sim:
  "\<exists>out st'. aggregate_scores_st self mo st = (out, self, mo, st')
       \<and> read_outcome st' out = aggregate_scores self mo
       \<and> take (length (dict_objs st)) (dict_objs st') = dict_objs st
       \<and> take (length (list_objs st)) (list_objs st') = list_objs st
       \<and> (\<forall>r. out = Inr r \<longrightarrow>
             ref_score_breakdown r = length (dict_objs st)
             \<and> ref_failure_rationale r = length (list_objs st)
             \<and> length (dict_objs st') = Suc (length (dict_objs st))
             \<and> length (list_objs st') = Suc (length (list_objs st)))"
proof (cases "validate_input mo")
  case (Inl e)
  then show ?thesis
    by (simp add: aggregate_scores_st_def aggregate_scores_def read_outcome_def logger_call_def)
next
  case (Inr outs)
  show ?thesis
  proof (cases "config_thresholds (config self)")
    case (Inl e)
    with Inr show ?thesis
      by (simp add: aggregate_scores_st_def aggregate_scores_def read_outcome_def logger_call_def)
  next
    case lookup: (Inr thresholds_value)
    show ?thesis
    proof (cases "\<exists>th. thresholds_value = YMap th")
      case False
      with Inr lookup show ?thesis
        by (cases thresholds_value)
           (simp_all add: aggregate_scores_st_def aggregate_scores_def read_outcome_def
                          logger_call_def new_dict_def new_list_def)
    next
      case True
      then obtain th where Some: "config_thresholds (config self) = Inr (YMap th)"
        using lookup by blast
    let ?bd = "length (dict_objs st)" and ?fr = "length (list_objs st)"
    let ?st3 = "st\<lparr>log_records := log_records st @ [''Aggregating scores for compound.''],
                    dict_objs := dict_objs st @ [[]], list_objs := list_objs st @ [[]]\<rparr>"
    let ?run = "score_loop_st scoring_functions outs th ?bd ?fr 0 ?st3"
    have unfold: "aggregate_scores_st self mo st =
        (case ?run of
           (Inl e, st4) \<Rightarrow> (Inl e, self, mo, st4)
         | (Inr total_score, st4) \<Rightarrow>
             (let svs = min (max (py_int total_score) 0) 100;
                  go = (if svs \<ge> 70 \<and> list_objs st4 ! ?fr = [] then ''go'' else ''no-go'')
              in (Inr \<lparr>ref_svs_score = svs, ref_go_decision = go,
                        ref_score_breakdown = ?bd, ref_failure_rationale = ?fr\<rparr>,
                  self, mo, st4)))"
      using Inr Some
      by (simp add: aggregate_scores_st_def new_dict_def new_list_def logger_call_def Let_def
               split: prod.splits sum.splits)
    have in3: "?bd < length (dict_objs ?st3)" "?fr < length (list_objs ?st3)" by simp_all
    from score_loop_st_sim [OF in3, of scoring_functions outs th 0] obtain d l where
      sim: "dict_objs (snd ?run) = (dict_objs ?st3)[?bd := d]"
           "list_objs (snd ?run) = (list_objs ?st3)[?fr := l]"
           "case score_loop scoring_functions outs th (dict_objs ?st3 ! ?bd, list_objs ?st3 ! ?fr, 0) of
              Inl e \<Rightarrow> fst ?run = Inl e
            | Inr (d', l', t) \<Rightarrow> fst ?run = Inr t \<and> d' = d \<and> l' = l"
      by blast
    have dl: "dict_objs (snd ?run) = dict_objs st @ [d]" "list_objs (snd ?run) = list_objs st @ [l]"
      using sim(1,2) by simp_all
    have start: "dict_objs ?st3 ! ?bd = []" "list_objs ?st3 ! ?fr = []" by simp_all
    obtain r4 st4 where run: "?run = (r4, st4)" by (cases ?run)
    show ?thesis
    proof (cases "score_loop scoring_functions outs th ([], [], 0)")
      case (Inl e)
      with sim(3) start run have "r4 = Inl e" by simp
      with unfold run Inl Inr Some dl show ?thesis
        by (simp add: aggregate_scores_def read_outcome_def)
    next
      case (Inr acc)
      obtain d' l' t where acc: "acc = (d', l', t)" by (cases acc)
      with sim(3) start run Inr have "r4 = Inr t" "d' = d" "l' = l" by simp_all
      with unfold run Inr acc \<open>validate_input mo = Inr outs\<close> Some dl show ?thesis
        by (simp add: aggregate_scores_def read_outcome_def Let_def)
    qed
    qed
  qed
qed

text \<open>
  C8. For a fixed configuration, what a caller reads from a call of \<^verbatim>\<open>aggregate_scores\<close>
  depends on the aggregator and the input bundle alone and not on the store in which the
  call runs: a second call with the same input, in the store that the first call has left,
  gives the same \<^verbatim>\<open>svs_score\<close>, \<^verbatim>\<open>go_decision\<close>, \<^verbatim>\<open>score_breakdown\<close> and
  \<^verbatim>\<open>failure_rationale\<close> (or the same error), and so does a call in any other store.
\<close>

theorem aggregate_scores_deterministic:
  assumes "aggregate_scores_st self module_outputs st = (out1, self1, mo1, st1)"
    and "aggregate_scores_st self1 mo1 st1 = (out2, self2, mo2, st2)"
    and "aggregate_scores_st self module_outputs st0 = (out3, self3, mo3, st3)"
  shows "read_outcome st1 out1 = read_outcome st2 out2
       \<and> read_outcome st2 out1 = read_outcome st2 out2
       \<and> read_outcome st3 out3 = read_outcome st1 out1"
proof -
  from aggregate_scores_st_sim [of self module_outputs st] assms(1)
  have one: "self1 = self" "mo1 = module_outputs"
      "read_outcome st1 out1 = aggregate_scores self module_outputs"
      "\<forall>r. out1 = Inr r \<longrightarrow> ref_score_breakdown r < length (dict_objs st1)
                             \<and> ref_failure_rationale r < length (list_objs st1)"
    by auto
  from aggregate_scores_st_sim [of self module_outputs st1] assms(2) one(1,2)
  have two: "read_outcome st2 out2 = aggregate_scores self module_outputs"
      "take (length (dict_objs st1)) (dict_objs st2) = dict_objs st1"
      "take (length (list_objs st1)) (list_objs st2) = list_objs st1"
    by auto
  from aggregate_scores_st_sim [of self module_outputs st0] assms(3)
  have three: "read_outcome st3 out3 = aggregate_scores self module_outputs"
    by auto
  have kept: "read_outcome st2 out1 = read_outcome st1 out1"
  proof (cases out1)
    case (Inl e)
    then show ?thesis by (simp add: read_outcome_def)
  next
    case (Inr r)
    with one(4) have lt: "ref_score_breakdown r < length (dict_objs st1)"
        "ref_failure_rationale r < length (list_objs st1)" by simp_all
    have "dict_objs st2 ! ref_score_breakdown r = dict_objs st1 ! ref_score_breakdown r"
      using lt(1) nth_take [of "ref_score_breakdown r" "length (dict_objs st1)" "dict_objs st2"]
      by (simp add: two(2))
    moreover
    have "list_objs st2 ! ref_failure_rationale r = list_objs st1 ! ref_failure_rationale r"
      using lt(2) nth_take [of "ref_failure_rationale r" "length (list_objs st1)" "list_objs st2"]
      by (simp add: two(3))
    ultimately show ?thesis using Inr by (simp add: read_outcome_def)
  qed
  from one(3) two(1) three kept show ?thesis by simp
qed

lemma first_call_value:
  "aggregate_scores_st ex_self (Dict overridden) ex_store =
     (Inr first_ref, ex_self, Dict overridden, ex_store1)"
  by code_simp

theorem aggregate_scores_deterministic_witness:
  "aggregate_scores_st ex_self (Dict overridden) ex_store =
     (Inr first_ref, ex_self, Dict overridden, ex_store1)
   \<and> aggregate_scores_st ex_self (Dict overridden) ex_store1 = second_call
   \<and> read_outcome ex_store1 (Inr first_ref) = Inr overridden_res
   \<and> read_outcome (snd (snd (snd second_call))) (fst second_call) = Inr overridden_res
   \<and> read_outcome (snd (snd (snd second_call))) (Inr first_ref) = Inr overridden_res"
proof -
  have b: "aggregate_scores_st ex_self (Dict overridden) ex_store1 =
             (fst second_call, fst (snd second_call), fst (snd (snd second_call)),
              snd (snd (snd second_call)))"
    by (simp add: second_call_def)
  have r: "read_outcome ex_store1 (Inr first_ref) = Inr overridden_res"
    by (simp add: read_outcome_def ex_store1_def first_ref_def overridden_res_def)
  from aggregate_scores_deterministic [OF first_call_value b first_call_value] r
       first_call_value
  show ?thesis by (simp add: second_call_def)
qed

text \<open>
  C9. A call of \<^verbatim>\<open>aggregate_scores\<close>, successful or failing, leaves \<^verbatim>\<open>self\<close> with its
  configuration and the \<^verbatim>\<open>module_outputs\<close> argument as they were, and changes no object
  that the store held before the call. The \<^verbatim>\<open>score_breakdown\<close> and \<^verbatim>\<open>failure_rationale\<close> of
  a returned result are objects that the call has created.
\<close>

theorem aggregate_scores_frame:
  assumes "aggregate_scores_st self module_outputs st = (out, self', module_outputs', st')"
  shows "self' = self \<and> config self' = config self \<and> module_outputs' = module_outputs
       \<and> take (length (dict_objs st)) (dict_objs st') = dict_objs st
       \<and> take (length (list_objs st)) (list_objs st') = list_objs st
       \<and> (\<forall>r. out = Inr r \<longrightarrow>
             length (dict_objs st) \<le> ref_score_breakdown r
             \<and> ref_score_breakdown r < length (dict_objs st')
             \<and> length (list_objs st) \<le> ref_failure_rationale r
             \<and> ref_failure_rationale r < length (list_objs st'))"
proof -
  from aggregate_scores_st_sim [of self module_outputs st] obtain out0 st0 where
    call: "aggregate_scores_st self module_outputs st = (out0, self, module_outputs, st0)" and
    dicts: "take (length (dict_objs st)) (dict_objs st0) = dict_objs st" and
    lists: "take (length (list_objs st)) (list_objs st0) = list_objs st" and
    refs: "\<forall>r. out0 = Inr r \<longrightarrow>
             ref_score_breakdown r = length (dict_objs st)
             \<and> ref_failure_rationale r = length (list_objs st)
             \<and> length (dict_objs st0) = Suc (length (dict_objs st))
             \<and> length (list_objs st0) = Suc (length (list_objs st))"
    by blast
  from call assms have same: "out = out0" "self' = self" "module_outputs' = module_outputs"
    "st' = st0" by simp_all
  have fresh: "length (dict_objs st) \<le> ref_score_breakdown r
             \<and> ref_score_breakdown r < length (dict_objs st')
             \<and> length (list_objs st) \<le> ref_failure_rationale r
             \<and> ref_failure_rationale r < length (list_objs st')" if "out = Inr r" for r
    using refs that same(1,4) by simp
  from same dicts lists fresh show ?thesis by blast
qed

theorem aggregate_scores_frame_witness:
  "aggregate_scores_st ex_self (Dict overridden) ex_store =
     (Inr first_ref, ex_self, Dict overridden, ex_store1)
   \<and> take (length (dict_objs ex_store)) (dict_objs ex_store1) = dict_objs ex_store
   \<and> take (length (list_objs ex_store)) (list_objs ex_store1) = list_objs ex_store
   \<and> length (dict_objs ex_store) \<le> ref_score_breakdown first_ref
   \<and> length (list_objs ex_store) \<le> ref_failure_rationale first_ref
   \<and> ref_score_breakdown first_ref < length (dict_objs ex_store1)
   \<and> ref_failure_rationale first_ref < length (list_objs ex_store1)"
  using aggregate_scores_frame [OF first_call_value] first_call_value
  by simp

section \<open>Aggregation returns on well-shaped thresholds\<close>

lemma logP_in_range_returns: "2 \<le> length rng \<Longrightarrow> \<exists>b. logP_in_range rng x = Inr b"
  by (cases rng; cases "tl rng") (auto simp: logP_in_range_def)

lemma module_step_returns:
  assumes "well_shaped th" and "m \<in> set scoring_functions"
  shows "\<exists>s fr'. module_step m outs th fr = Inr (s, fr')"
proof -
  from assms(1) obtain dc tc gc ac lc oc where c:
    "th_docking th = Some dc" "th_toxicity th = Some tc" "th_druggability th = Some gc"
    "th_adme_pk th = Some ac" "2 \<le> length (logP_range ac)"
    "th_drug_likeness th = Some lc" "score_by_violations lc \<noteq> []"
    "th_off_target th = Some oc" "3 \<le> length (si_thresholds oc)"
    by (auto simp: well_shaped_def split: option.splits)
  from logP_in_range_returns [OF c(5)] obtain b where
    b: "logP_in_range (logP_range ac) (get_default (logP (adme_pk_of outs)) (Fin (- 1))) = Inr b"
    by blast
  from c(7) have "map fst (score_by_violations lc) \<noteq> []" by simp
  from max_key_Max [OF this] obtain K where
    K: "max_key (map fst (score_by_violations lc)) = Inr K" by blast
  from assms(2) have "m = ''docking'' \<or> m = ''adme_pk'' \<or> m = ''toxicity''
    \<or> m = ''druggability'' \<or> m = ''drug_likeness'' \<or> m = ''off_target''"
    by (simp add: scoring_functions_def)
  then show ?thesis
  proof (elim disjE)
    assume "m = ''docking''"
    with c(1) show ?thesis by (simp add: module_step_def call_rule_def)
  next
    assume "m = ''adme_pk''"
    with c(4) b show ?thesis
      by (simp add: module_step_def call_rule_def score_adme_pk_def Let_def)
  next
    assume "m = ''toxicity''"
    with c(2) show ?thesis
      by (simp add: module_step_def call_toxicity_def split: prod.splits)
  next
    assume "m = ''druggability''"
    with c(3) show ?thesis by (simp add: module_step_def call_rule_def)
  next
    assume "m = ''drug_likeness''"
    with c(6) K show ?thesis
      by (simp add: module_step_def call_rule_def score_drug_likeness_def Let_def)
  next
    assume "m = ''off_target''"
    with c(8,9) show ?thesis
      by (simp add: module_step_def call_rule_def score_off_target_def Let_def)
  qed
qed

lemma score_loop_returns:
  assumes "well_shaped th" and "set ms \<subseteq> set scoring_functions"
  shows "\<exists>acc'. score_loop ms outs th acc = Inr acc'"
  using assms(2)
proof (induction ms arbitrary: acc)
  case Nil
  show ?case by (cases acc) simp
next
  case (Cons m ms)
  obtain bd fr tot where acc: "acc = (bd, fr, tot)" by (cases acc) auto
  from Cons.prems have "m \<in> set scoring_functions" by simp
  from module_step_returns [OF assms(1) this] obtain s fr' where
    "module_step m outs th fr = Inr (s, fr')" by blast
  moreover from Cons.prems have "set ms \<subseteq> set scoring_functions" by simp
  from Cons.IH [OF this] obtain acc' where
    "score_loop ms outs th (AList.update m s bd, fr', tot + s) = Inr acc'" by blast
  ultimately show ?case using acc by (cases acc') auto
qed

lemma aggregate_scores_returns:
  assumes "validate_input module_outputs = Inr outs" and "config_thresholds (config self) = Inr (YMap th)"
    and "well_shaped th"
  shows "\<exists>res. aggregate_scores self module_outputs = Inr res"
proof -
  from score_loop_returns [OF assms(3), of scoring_functions outs "([], [], 0)"]
  obtain acc where "score_loop scoring_functions outs th ([], [], 0) = Inr acc" by auto
  with assms(1,2) show ?thesis
    by (cases acc) (simp add: aggregate_scores_def Let_def)
qed

lemma ex_thresholds_well_shaped: "well_shaped ex_thresholds"
  by code_simp

end
